theory Spec2Isabelle
  imports Main "HOL-Library.AList"
begin

section \<open>JavaScript values and objects\<close>

text \<open>
  The resolver handles untyped data: parsed JSON bodies, scraper output, request options
  and the optional card type. A value is one of the JavaScript primitives or an object;
  an object is an association list in insertion order. Strings are byte strings, a
  \<open>Buffer\<close> is the string of its bytes, and numbers are integers (the code only ever
  tests a number for truthiness).
\<close>

datatype jsval =
    JUndefined
  | JNull
  | JBool bool
  | JNum int
  | JStr string
  | JObj "(string \<times> jsval) list"

type_synonym obj = "(string \<times> jsval) list"

text \<open>Truthiness, as tested by \<open>if (x)\<close>, \<open>!x\<close> and \<open>a && b\<close>.\<close>

fun truthy :: "jsval \<Rightarrow> bool" where
  "truthy JUndefined = False"
| "truthy JNull = False"
| "truthy (JBool b) = b"
| "truthy (JNum n) = (n \<noteq> 0)"
| "truthy (JStr s) = (s \<noteq> [])"
| "truthy (JObj ob) = True"

text \<open>\<open>o.k\<close> on an object: the stored value, or \<open>undefined\<close> for a missing key.\<close>

definition get_prop :: "obj \<Rightarrow> string \<Rightarrow> jsval" where
  "get_prop ob k = (case map_of ob k of None \<Rightarrow> JUndefined | Some v \<Rightarrow> v)"

text \<open>\<open>o.k = v\<close> keeps the position of an existing key and appends a new one.\<close>

definition set_prop :: "string \<Rightarrow> jsval \<Rightarrow> obj \<Rightarrow> obj" where
  "set_prop k v ob = AList.update k v ob"

definition delete_prop :: "string \<Rightarrow> obj \<Rightarrow> obj" where
  "delete_prop k ob = AList.delete k ob"

text \<open>\<open>Object.assign(target, source)\<close> and the spread \<open>{...target, ...source}\<close>.\<close>

definition assign :: "obj \<Rightarrow> obj \<Rightarrow> obj" where
  "assign target source = fold (\<lambda>(k, v). set_prop k v) source target"

text \<open>\<open>_.pick(v, keys)\<close>: the listed keys that are present, in the order of \<open>keys\<close>.\<close>

fun pick :: "jsval \<Rightarrow> string list \<Rightarrow> obj" where
  "pick (JObj ob) ks = concat (map (\<lambda>k. case map_of ob k of None \<Rightarrow> [] | Some v \<Rightarrow> [(k, v)]) ks)"
| "pick v ks = []"

section \<open>Errors, events and asynchronous results\<close>

text \<open>
  \<open>ValidationError m c\<close> and \<open>InternalServerError m err\<close> are the two Ghost errors the
  module constructs (message, then context or wrapped error); \<open>Thrown m\<close> is any other
  exception (a \<open>TypeError\<close>, a network failure), with its message.
\<close>

datatype exn =
    ValidationError string string
  | InternalServerError string "exn option"
  | Thrown string

fun message :: "exn \<Rightarrow> string" where
  "message (ValidationError m c) = m"
| "message (InternalServerError m e) = m"
| "message (Thrown m) = m"

text \<open>\<open>errors.utils.isGhostError(err) && err.errorType === 'ValidationError'\<close>\<close>

fun isValidationError :: "exn \<Rightarrow> bool" where
  "isValidationError (ValidationError m c) = True"
| "isValidationError e = False"

text \<open>
  What a run does besides returning, in order. \<open>Request u c\<close> is a call of the
  injected network primitive; \<open>Extract u\<close> is the call of oembed-parser's \<open>extract\<close>
  made by \<open>knownProvider\<close>; \<open>LoggingError e\<close> is \<open>logging.error(e)\<close>. The other
  events record that a stage was entered, with its arguments: the known-provider matcher
  \<open>findUrlWithProvider\<close>, \<open>fetchPage\<close>, \<open>fetchOembedData\<close> and \<open>fetchBookmarkData\<close>.
\<close>

datatype event =
    FindUrlWithProvider string
  | Extract string
  | FetchPage string obj
  | Request string obj
  | FetchOembedData string string jsval
  | FetchBookmarkData string string
  | LoggingError exn

text \<open>
  A settled promise: rejected with an exception or fulfilled with a value, together with
  the events of the computation that produced it.
\<close>

type_synonym 'a promise = "(exn + 'a) \<times> event list"

definition resolve :: "'a \<Rightarrow> 'a promise" where
  "resolve x = (Inr x, [])"

definition reject :: "exn \<Rightarrow> 'a promise" where
  "reject e = (Inl e, [])"

definition emit :: "event \<Rightarrow> unit promise" where
  "emit ev = (Inr (), [ev])"

text \<open>\<open>const x = await m; f x\<close>: a rejection of \<open>m\<close> skips \<open>f\<close>.\<close>

definition await :: "'a promise \<Rightarrow> ('a \<Rightarrow> 'b promise) \<Rightarrow> 'b promise" where
  "await m f =
     (case m of
        (Inl e, t) \<Rightarrow> (Inl e, t)
      | (Inr x, t) \<Rightarrow> (case f x of (r, t') \<Rightarrow> (r, t @ t')))"

text \<open>\<open>try { m } catch (e) { h e }\<close> around an awaited computation.\<close>

definition try_catch :: "'a promise \<Rightarrow> (exn \<Rightarrow> 'a promise) \<Rightarrow> 'a promise" where
  "try_catch m h =
     (case m of
        (Inl e, t) \<Rightarrow> (case h e of (r, t') \<Rightarrow> (r, t @ t'))
      | (Inr x, t) \<Rightarrow> (Inr x, t))"

text \<open>
  \<open>try { ... } catch (err) { h err }\<close> as the body of an async function whose \<open>try\<close>
  block may leave by \<open>return p\<close> with a promise \<open>p\<close> that is not awaited. The block
  yields \<open>Inl e\<close> when an awaited step rejects or a statement throws, and the handler
  runs; it yields \<open>Inr r\<close> when it returns, \<open>r\<close> being the outcome of the returned
  promise, which the function's own promise adopts without the handler seeing it.
\<close>

definition return_value :: "'a \<Rightarrow> (exn + 'a) promise" where
  "return_value x = (Inr (Inr x), [])"

definition return_promise :: "'a promise \<Rightarrow> (exn + 'a) promise" where
  "return_promise p = (Inr (fst p), snd p)"

definition async_try_catch :: "(exn + 'a) promise \<Rightarrow> (exn \<Rightarrow> 'a promise) \<Rightarrow> 'a promise" where
  "async_try_catch m h =
     (case m of
        (Inl e, t) \<Rightarrow> (case h e of (r, t') \<Rightarrow> (r, t @ t'))
      | (Inr r, t) \<Rightarrow> (r, t))"

text \<open>A synchronous step that may throw.\<close>

definition lift :: "exn + 'a \<Rightarrow> 'a promise" where
  "lift r = (r, [])"

text \<open>Member access \<open>v.k\<close>: a \<open>TypeError\<close> on \<open>undefined\<close> and \<open>null\<close>.\<close>

fun member :: "jsval \<Rightarrow> string \<Rightarrow> exn + jsval" where
  "member JUndefined k = Inl (Thrown ''TypeError'')"
| "member JNull k = Inl (Thrown ''TypeError'')"
| "member (JObj ob) k = Inr (get_prop ob k)"
| "member v k = Inr JUndefined"

section \<open>Regular expressions\<close>

text \<open>
  The fragment of JavaScript regular expressions the module uses, without repetition
  operators other than \<open>?\<close>. \<open>rmatch r s\<close> lists the remainders of \<open>s\<close> after each way
  of matching \<open>r\<close> at its start, in the order the backtracking matcher tries them
  (\<open>?\<close> is greedy, the left alternative comes first). The anchors \<open>^\<close> and \<open>$\<close> are
  expressed by the three ways of running a pattern below.
\<close>

datatype rx =
    Epsilon
  | Lit char
  | LitI char
  | Cls char char
  | Seq rx rx
  | Alt rx rx
  | Opt rx

definition lower :: "char \<Rightarrow> char" where
  "lower c = (let n = (of_char c :: nat) in if 65 \<le> n \<and> n \<le> 90 then char_of (n + 32) else c)"

definition in_range :: "char \<Rightarrow> char \<Rightarrow> char \<Rightarrow> bool" where
  "in_range a b c = ((of_char a :: nat) \<le> of_char c \<and> (of_char c :: nat) \<le> of_char b)"

fun rmatch :: "rx \<Rightarrow> string \<Rightarrow> string list" where
  "rmatch Epsilon s = [s]"
| "rmatch (Lit c) s = (case s of [] \<Rightarrow> [] | x # t \<Rightarrow> if x = c then [t] else [])"
| "rmatch (LitI c) s = (case s of [] \<Rightarrow> [] | x # t \<Rightarrow> if lower x = lower c then [t] else [])"
| "rmatch (Cls a b) s = (case s of [] \<Rightarrow> [] | x # t \<Rightarrow> if in_range a b x then [t] else [])"
| "rmatch (Seq p q) s = concat (map (rmatch q) (rmatch p s))"
| "rmatch (Alt p q) s = rmatch p s @ rmatch q s"
| "rmatch (Opt p) s = rmatch p s @ [s]"

fun lits :: "string \<Rightarrow> rx" where
  "lits [] = Epsilon"
| "lits (c # cs) = Seq (Lit c) (lits cs)"

text \<open>\<open>/^r$/.test(s)\<close>\<close>

definition test_whole :: "rx \<Rightarrow> string \<Rightarrow> bool" where
  "test_whole r s = ([] \<in> set (rmatch r s))"

text \<open>\<open>/^r/.test(s)\<close>\<close>

definition test_start :: "rx \<Rightarrow> string \<Rightarrow> bool" where
  "test_start r s = (rmatch r s \<noteq> [])"

text \<open>\<open>/r/.test(s)\<close>, also the truth value of \<open>s.match(/r/)\<close>: a match at any offset.\<close>

fun test_anywhere :: "rx \<Rightarrow> string \<Rightarrow> bool" where
  "test_anywhere r [] = (rmatch r [] \<noteq> [])"
| "test_anywhere r (c # s) = (rmatch r (c # s) \<noteq> [] \<or> test_anywhere r s)"

text \<open>\<open>s.replace(/^r/, '')\<close>: the first match in backtracking order is removed.\<close>

definition replace_start :: "rx \<Rightarrow> string \<Rightarrow> string" where
  "replace_start r s = (case rmatch r s of [] \<Rightarrow> s | t # ts \<Rightarrow> t)"

section \<open>The known-provider matcher\<close>

text \<open>\<open>/^\/\/|^https?:\/\/(?:www\.)?/\<close>, both alternatives anchored at the start.\<close>

definition SCHEME_WWW_REGEX :: rx where
  "SCHEME_WWW_REGEX =
     Alt (lits ''//'')
         (Seq (lits ''http'') (Seq (Opt (Lit CHR ''s'')) (Seq (lits ''://'') (Opt (lits ''www.'')))))"

text \<open>
  The loop over \<open>testUrls\<close>: \<open>provider\<close> is overwritten by every test, and the first
  variant the directory knows replaces \<open>url\<close> and ends the loop.
\<close>

fun testUrls_loop :: "(string \<Rightarrow> bool) \<Rightarrow> string list \<Rightarrow> string \<Rightarrow> bool \<Rightarrow> string \<times> bool" where
  "testUrls_loop directory [] u provider = (u, provider)"
| "testUrls_loop directory (testUrl # rest) u provider =
     (if directory testUrl then (testUrl, True)
      else testUrls_loop directory rest u False)"

text \<open>
  \<open>findUrlWithProvider\<close>, with oembed-parser's \<open>hasProvider\<close> (a lookup in the static
  provider directory) as the parameter \<open>directory\<close>. \<open>provider\<close> starts \<open>undefined\<close>,
  which is never returned since the list of variants is not empty; it is \<open>False\<close> here.
\<close>

definition findUrlWithProvider :: "(string \<Rightarrow> bool) \<Rightarrow> string \<Rightarrow> string \<times> bool" where
  "findUrlWithProvider directory u =
     (let baseUrl = replace_start SCHEME_WWW_REGEX u;
          testUrls = [''http://'' @ baseUrl,
                      ''https://'' @ baseUrl,
                      ''http://www.'' @ baseUrl,
                      ''https://www.'' @ baseUrl]
      in testUrls_loop directory testUrls u False)"

section \<open>The resolver and its collaborators\<close>

text \<open>The fields of a WHATWG \<open>URL\<close> object that the module reads.\<close>

record URL =
  protocol :: string
  hostname :: string
  host :: string

text \<open>The response of the network primitive: final URL, body and headers.\<close>

record response =
  resp_url :: string
  resp_body :: jsval
  resp_headers :: obj

type_synonym IExternalRequest = "string \<Rightarrow> obj \<Rightarrow> response promise"

record ICustomProvider =
  canSupportRequest :: "URL \<Rightarrow> bool promise"
  getOEmbedData :: "URL \<Rightarrow> IExternalRequest \<Rightarrow> jsval promise"

text \<open>
  Everything the class receives or imports. Each collaborator is a function of its
  arguments (the same call gives the same answer within one resolution); \<open>Inl\<close> is the
  exception it throws or rejects with.
  \<^item> \<open>config_get_url\<close>: \<open>this.config.get('url')\<close>;
  \<^item> \<open>new_URL\<close>: the \<open>URL\<close> constructor, \<open>None\<close> when it throws;
  \<^item> \<open>request\<close>: the injected \<open>externalRequest(url, config)\<close>;
  \<^item> \<open>hasProvider\<close>, \<open>oembed_extract\<close>: \<open>hasProvider\<close> and \<open>extract\<close> of oembed-parser;
  \<^item> \<open>cheerio_href\<close>: \<open>cheerio('link[type="application/json+oembed"]', html).attr('href')\<close>,
    \<open>None\<close> for \<open>undefined\<close>;
  \<^item> \<open>metascraper\<close>: the scraper pipeline applied to \<open>{html, url}\<close>;
  \<^item> \<open>charset\<close>: \<open>charset(headers, body)\<close>, \<open>None\<close> for \<open>null\<close>;
  \<^item> \<open>iconv_decode\<close>: \<open>iconv.decode(Buffer.from(body, 'binary'), encoding)\<close>;
  \<^item> \<open>customProviders\<close>: the registered providers, in registration order.
\<close>

record deps =
  config_get_url :: string
  new_URL :: "string \<Rightarrow> URL option"
  request :: "string \<Rightarrow> obj \<Rightarrow> exn + response"
  hasProvider :: "string \<Rightarrow> bool"
  oembed_extract :: "string \<Rightarrow> exn + jsval"
  cheerio_href :: "string \<Rightarrow> exn + string option"
  metascraper :: "string \<Rightarrow> string \<Rightarrow> exn + obj"
  charset :: "obj \<Rightarrow> jsval \<Rightarrow> exn + string option"
  iconv_decode :: "jsval \<Rightarrow> string \<Rightarrow> exn + string"
  customProviders :: "ICustomProvider list"

definition registerProvider :: "ICustomProvider \<Rightarrow> deps \<Rightarrow> deps" where
  "registerProvider provider d = d\<lparr>customProviders := customProviders d @ [provider]\<rparr>"

definition messages_noUrlProvided :: string where
  "messages_noUrlProvided = ''No url provided.''"

definition messages_insufficientMetadata :: string where
  "messages_insufficientMetadata = ''URL contains insufficient metadata.''"

definition messages_unknownProvider :: string where
  "messages_unknownProvider = ''No provider found for supplied URL.''"

definition unknownProvider :: "string \<Rightarrow> 'a promise" where
  "unknownProvider u = reject (ValidationError messages_unknownProvider u)"

subsection \<open>The SSRF guard\<close>

text \<open>
  \<open>/^(?:(?:25[0-5]|2[0-4][0-9]|[01]?[0-9][0-9]?)\.){3}(?:25[0-5]|2[0-4][0-9]|[01]?[0-9][0-9]?)$/\<close>
\<close>

definition IPV4_OCTET :: rx where
  "IPV4_OCTET =
     Alt (Seq (lits ''25'') (Cls CHR ''0'' CHR ''5''))
    (Alt (Seq (Lit CHR ''2'') (Seq (Cls CHR ''0'' CHR ''4'') (Cls CHR ''0'' CHR ''9'')))
         (Seq (Opt (Cls CHR ''0'' CHR ''1''))
              (Seq (Cls CHR ''0'' CHR ''9'') (Opt (Cls CHR ''0'' CHR ''9'')))))"

definition IPV4_REGEX :: rx where
  "IPV4_REGEX =
     Seq (Seq IPV4_OCTET (Lit CHR ''.''))
    (Seq (Seq IPV4_OCTET (Lit CHR ''.''))
    (Seq (Seq IPV4_OCTET (Lit CHR ''.''))
         IPV4_OCTET))"

text \<open>\<open>/:/\<close>\<close>

definition IPV6_REGEX :: rx where
  "IPV6_REGEX = Lit CHR '':''"

text \<open>\<open>/^https?:/i\<close>\<close>

definition HTTP_REGEX :: rx where
  "HTTP_REGEX =
     Seq (LitI CHR ''h'') (Seq (LitI CHR ''t'') (Seq (LitI CHR ''t'') (Seq (LitI CHR ''p'')
    (Seq (Opt (LitI CHR ''s'')) (Lit CHR '':'')))))"

text \<open>
  The whole body is inside \<open>try\<close>, and \<open>catch\<close> returns \<open>true\<close>: the site URL is
  parsed first, then the candidate.
\<close>

definition isIpOrLocalhost :: "deps \<Rightarrow> string \<Rightarrow> bool" where
  "isIpOrLocalhost d u =
     (case new_URL d (config_get_url d) of
        None \<Rightarrow> True
      | Some siteUrl \<Rightarrow>
          (case new_URL d u of
             None \<Rightarrow> True
           | Some parsed \<Rightarrow>
               if host siteUrl = host parsed then False
               else if \<not> test_start HTTP_REGEX (protocol parsed)
                       \<or> hostname parsed = ''localhost''
                       \<or> test_whole IPV4_REGEX (hostname parsed)
                       \<or> test_anywhere IPV6_REGEX (hostname parsed)
               then True
               else False))"

subsection \<open>The guarded fetcher\<close>

definition externalRequest :: "deps \<Rightarrow> IExternalRequest" where
  "externalRequest d u requestConfig =
     (if isIpOrLocalhost d u then unknownProvider u
      else await (emit (Request u requestConfig)) (\<lambda>_.
           await (lift (request d u requestConfig)) (\<lambda>response.
             if isIpOrLocalhost d (resp_url response) then unknownProvider u
             else resolve response)))"

subsection \<open>Known providers\<close>

text \<open>\<open>extract\<close> is awaited inside \<open>try\<close>; its failure becomes an \<open>InternalServerError\<close>.\<close>

definition knownProvider :: "deps \<Rightarrow> string \<Rightarrow> jsval promise" where
  "knownProvider d u =
     try_catch
       (await (emit (Extract u)) (\<lambda>_. lift (oembed_extract d u)))
       (\<lambda>err. reject (InternalServerError (message err) None))"

subsection \<open>The page fetcher\<close>

text \<open>\<open>new CookieJar()\<close> is a fresh, empty jar; \<open>...options\<close> overrides the defaults.\<close>

definition request_config :: "obj \<Rightarrow> obj" where
  "request_config options =
     assign [(''cookieJar'', JObj []),
             (''method'', JStr ''GET''),
             (''timeout'', JNum (2 * 1000)),
             (''followRedirect'', JBool True)]
            options"

definition fetchPage :: "deps \<Rightarrow> string \<Rightarrow> obj \<Rightarrow> response promise" where
  "fetchPage d u options =
     await (emit (FetchPage u options)) (\<lambda>_. externalRequest d u (request_config options))"

function show_nat :: "nat \<Rightarrow> string" where
  "show_nat n =
     (if n < 10 then [char_of (48 + n)]
      else show_nat (n div 10) @ [char_of (48 + n mod 10)])"
  by pat_completeness auto
termination
  by (relation "measure id") auto

declare show_nat.simps [simp del]

text \<open>\<open>v.toString()\<close>; a \<open>Buffer\<close> (here a string) gives its content.\<close>

fun toString :: "jsval \<Rightarrow> exn + string" where
  "toString JUndefined = Inl (Thrown ''TypeError'')"
| "toString JNull = Inl (Thrown ''TypeError'')"
| "toString (JBool b) = Inr (if b then ''true'' else ''false'')"
| "toString (JNum n) = Inr (if n < 0 then CHR ''-'' # show_nat (nat (- n)) else show_nat (nat n))"
| "toString (JStr s) = Inr s"
| "toString (JObj ob) = Inr ''[object Object]''"

text \<open>
  The \<open>try\<close>/\<open>catch\<close> of \<open>fetchPageHtml\<close>, which returns \<open>{body, url}\<close>, here the
  pair \<open>(url, body)\<close>. An exception of \<open>charset\<close>, \<open>iconv.decode\<close> or \<open>toString\<close>
  inside \<open>try\<close> is logged and the undecoded body is returned.
\<close>

definition decode_body :: "deps \<Rightarrow> response \<Rightarrow> (string \<times> string) promise" where
  "decode_body d response =
     (let headers = resp_headers response;
          body = resp_body response;
          responseUrl = resp_url response
      in try_catch
           (await (lift (charset d headers body)) (\<lambda>encoding.
              case encoding of
                None \<Rightarrow> await (lift (toString body)) (\<lambda>s. resolve (responseUrl, s))
              | Some enc \<Rightarrow>
                  await (lift (iconv_decode d body enc)) (\<lambda>decodedBody.
                    resolve (responseUrl, decodedBody))))
           (\<lambda>err.
              await (emit (LoggingError err)) (\<lambda>_.
              await (lift (toString body)) (\<lambda>s. resolve (responseUrl, s)))))"

definition html_options :: obj where
  "html_options = [(''encoding'', JStr ''binary''), (''responseType'', JStr ''buffer'')]"

definition fetchPageHtml :: "deps \<Rightarrow> string \<Rightarrow> (string \<times> string) promise" where
  "fetchPageHtml d u = await (fetchPage d u html_options) (decode_body d)"

definition json_options :: obj where
  "json_options = [(''json'', JBool True)]"

definition fetchPageJson :: "deps \<Rightarrow> string \<Rightarrow> (string \<times> jsval) promise" where
  "fetchPageJson d u =
     await (fetchPage d u json_options)
       (\<lambda>response. resolve (resp_url response, resp_body response))"

subsection \<open>The bookmark extractor\<close>

text \<open>
  A scraper failure is logged and becomes the unknown-provider error, returned from
  inside \<open>catch\<close>. Otherwise \<open>metadata\<close> is the scraper's object extended with
  \<open>thumbnail\<close> and \<open>icon\<close>, from which \<open>image\<close> and \<open>logo\<close> are then deleted.
\<close>

definition bookmark_metadata :: "obj \<Rightarrow> obj" where
  "bookmark_metadata scraperResponse =
     delete_prop ''logo'' (delete_prop ''image''
       (assign (assign [] scraperResponse)
               [(''thumbnail'', get_prop scraperResponse ''image''),
                (''icon'', get_prop scraperResponse ''logo'')]))"

definition fetchBookmarkData :: "deps \<Rightarrow> string \<Rightarrow> string \<Rightarrow> jsval promise" where
  "fetchBookmarkData d u html =
     await (emit (FetchBookmarkData u html)) (\<lambda>_.
       case metascraper d html u of
         Inl err \<Rightarrow> await (emit (LoggingError err)) (\<lambda>_. unknownProvider u)
       | Inr scraperResponse \<Rightarrow>
           (let metadata = bookmark_metadata scraperResponse
            in if \<not> truthy (get_prop metadata ''title'')
               then reject (ValidationError messages_insufficientMetadata u)
               else resolve (JObj [(''version'', JStr ''1.0''),
                                   (''type'', JStr ''bookmark''),
                                   (''url'', JStr u),
                                   (''metadata'', JObj metadata)])))"

subsection \<open>The oEmbed discoverer\<close>

text \<open>\<open>/wp-json\/oembed/\<close>\<close>

definition WP_OEMBED_REGEX :: rx where
  "WP_OEMBED_REGEX = lits ''wp-json/oembed''"

definition knownFields :: "string list" where
  "knownFields =
     [''type'', ''version'', ''html'', ''url'', ''title'', ''width'', ''height'',
      ''author_name'', ''author_url'', ''provider_name'', ''provider_url'',
      ''thumbnail_url'', ''thumbnail_width'', ''thumbnail_height'']"

text \<open>
  The validation of a fetched oEmbed body (everything after \<open>fetchPageJson\<close>); a return
  without a value is \<open>undefined\<close>.
\<close>

definition validate_oembed :: "jsval \<Rightarrow> jsval promise" where
  "validate_oembed body =
     await (lift (member body ''type'')) (\<lambda>body_type.
     await (lift (member body ''version'')) (\<lambda>body_version.
       let hasRequiredFields = (truthy body_type \<and> truthy body_version);
           hasValidType = (body_type \<in> set [JStr ''photo'', JStr ''video'', JStr ''link'', JStr ''rich''])
       in if hasRequiredFields \<and> hasValidType
          then (let oembed = pick body knownFields
                in if get_prop oembed ''type'' = JStr ''photo'' \<and> \<not> truthy (get_prop oembed ''url'')
                   then resolve JUndefined
                   else if (get_prop oembed ''type'' = JStr ''video'' \<or> get_prop oembed ''type'' = JStr ''rich'')
                           \<and> (\<not> truthy (get_prop oembed ''html'')
                                \<or> \<not> truthy (get_prop oembed ''width'')
                                \<or> \<not> truthy (get_prop oembed ''height''))
                   then resolve JUndefined
                   else resolve (JObj oembed))
          else resolve JUndefined))"

definition fetchOembedData :: "deps \<Rightarrow> string \<Rightarrow> string \<Rightarrow> jsval \<Rightarrow> jsval promise" where
  "fetchOembedData d u html cardType =
     await (emit (FetchOembedData u html cardType)) (\<lambda>_.
       case cheerio_href d html of
         Inl e \<Rightarrow> unknownProvider u
       | Inr None \<Rightarrow> resolve JUndefined
       | Inr (Some oembedUrl) \<Rightarrow>
           if oembedUrl \<noteq> []
           then if \<not> truthy cardType \<and> test_anywhere WP_OEMBED_REGEX oembedUrl
                then resolve JUndefined
                else await (fetchPageJson d oembedUrl) (\<lambda>oembedResponse.
                       validate_oembed (snd oembedResponse))
           else resolve JUndefined)"

subsection \<open>The orchestrator\<close>

text \<open>
  \<open>String.prototype.trim\<close> removes the leading and trailing code units that are
  \<open>WhiteSpace\<close> or \<open>LineTerminator\<close> of ECMAScript: TAB, LF, VT, FF, CR, SP, NBSP
  (U+00A0), U+1680, U+2000 to U+200A, LS and PS (U+2028, U+2029), U+202F, U+205F, U+3000
  and the byte order mark U+FEFF. A \<open>string\<close> here holds the code units below 256, so
  of these the first seven can occur in it.
\<close>

definition is_white_space :: "nat \<Rightarrow> bool" where
  "is_white_space n =
     (n \<in> {9, 10, 11, 12, 13, 32, 160, 5760, 8232, 8233, 8239, 8287, 12288, 65279}
      \<or> (8192 \<le> n \<and> n \<le> 8202))"

definition is_space :: "char \<Rightarrow> bool" where
  "is_space c = is_white_space (of_char c)"

definition trim :: "string \<Rightarrow> string" where
  "trim s = rev (dropWhile is_space (rev (dropWhile is_space s)))"

text \<open>
  The loop over \<open>this.customProviders\<close>: \<open>Some result\<close> when a provider's result is
  returned, \<open>None\<close> when the loop ends without one.
\<close>

fun customProviders_loop ::
  "deps \<Rightarrow> ICustomProvider list \<Rightarrow> URL \<Rightarrow> jsval option promise" where
  "customProviders_loop d [] urlObject = resolve None"
| "customProviders_loop d (provider # rest) urlObject =
     await (canSupportRequest provider urlObject) (\<lambda>supported.
       if supported
       then await (getOEmbedData provider urlObject (externalRequest d)) (\<lambda>result.
              if result \<noteq> JNull then resolve (Some result)
              else customProviders_loop d rest urlObject)
       else customProviders_loop d rest urlObject)"

text \<open>
  The end of the \<open>try\<close> block: discovery is awaited and is called without a card
  type; the bookmark fallback is awaited; \<open>unknownProvider\<close> is returned.
\<close>

definition discover_or_bookmark :: "deps \<Rightarrow> string \<Rightarrow> string \<Rightarrow> jsval \<Rightarrow> (exn + jsval) promise" where
  "discover_or_bookmark d u body type =
     await (fetchOembedData d u body JUndefined) (\<lambda>data.
     await (if \<not> truthy data \<and> \<not> truthy type then fetchBookmarkData d u body else resolve data)
       (\<lambda>data.
          if \<not> truthy data then return_promise (unknownProvider u)
          else return_value data))"

text \<open>
  From the page fetch on. \<open>fetchBookmarkData\<close> and \<open>knownProvider\<close> are returned
  without \<open>await\<close>.
\<close>

definition fetch_and_resolve :: "deps \<Rightarrow> string \<Rightarrow> jsval \<Rightarrow> (exn + jsval) promise" where
  "fetch_and_resolve d u type =
     await (fetchPageHtml d u) (\<lambda>(pageUrl, body).
       if type = JStr ''bookmark'' then return_promise (fetchBookmarkData d u body)
       else if pageUrl \<noteq> u
       then await (emit (FindUrlWithProvider pageUrl)) (\<lambda>_.
              case findUrlWithProvider (hasProvider d) pageUrl of
                (providerUrl, provider) \<Rightarrow>
                  if provider then return_promise (knownProvider d providerUrl)
                  else discover_or_bookmark d u body type)
       else discover_or_bookmark d u body type)"

text \<open>After the provider loop: the known-provider matcher, unless a bookmark is requested.\<close>

definition match_or_fetch :: "deps \<Rightarrow> string \<Rightarrow> jsval \<Rightarrow> (exn + jsval) promise" where
  "match_or_fetch d u type =
     (if type \<noteq> JStr ''bookmark''
      then await (emit (FindUrlWithProvider u)) (\<lambda>_.
             case findUrlWithProvider (hasProvider d) u of
               (providerUrl, provider) \<Rightarrow>
                 if provider then return_promise (knownProvider d providerUrl)
                 else fetch_and_resolve d u type)
      else fetch_and_resolve d u type)"

text \<open>The \<open>try\<close> block after \<open>new URL(url)\<close> and \<open>url = url.trim()\<close>.\<close>

definition try_block :: "deps \<Rightarrow> URL \<Rightarrow> string \<Rightarrow> jsval \<Rightarrow> (exn + jsval) promise" where
  "try_block d urlObject u type =
     await (customProviders_loop d (customProviders d) urlObject) (\<lambda>found.
       case found of
         Some result \<Rightarrow> return_value result
       | None \<Rightarrow> match_or_fetch d u type)"

definition catch_block :: "string \<Rightarrow> exn \<Rightarrow> jsval promise" where
  "catch_block u err =
     (if isValidationError err then reject err
      else await (emit (LoggingError
                    (InternalServerError ''Encountered error when fetching oembed'' (Some err))))
             (\<lambda>_. unknownProvider u))"

text \<open>
  \<open>fetchOembedDataFromUrl(url, type)\<close>. When \<open>new URL(url)\<close> throws, \<open>url\<close> is still
  untrimmed in \<open>catch\<close>; afterwards every use of \<open>url\<close> is the trimmed string.
\<close>

definition fetchOembedDataFromUrl :: "deps \<Rightarrow> string \<Rightarrow> jsval \<Rightarrow> jsval promise" where
  "fetchOembedDataFromUrl d u type =
     (case new_URL d u of
        None \<Rightarrow> catch_block u (Thrown ''TypeError'')
      | Some urlObject \<Rightarrow>
          async_try_catch (try_block d urlObject (trim u) type) (catch_block (trim u)))"

section \<open>Vocabulary of the statements\<close>

subsection \<open>Custom providers\<close>

text \<open>
  A provider declines when \<open>canSupportRequest\<close> answers \<open>false\<close>, or answers \<open>true\<close>
  and \<open>getOEmbedData\<close> then gives \<open>null\<close>. Its events are those of the calls made.
\<close>

definition declines :: "deps \<Rightarrow> URL \<Rightarrow> ICustomProvider \<Rightarrow> bool" where
  "declines d urlObject q =
     (fst (canSupportRequest q urlObject) = Inr False
      \<or> (fst (canSupportRequest q urlObject) = Inr True
          \<and> fst (getOEmbedData q urlObject (externalRequest d)) = Inr JNull))"

definition provider_events :: "deps \<Rightarrow> URL \<Rightarrow> ICustomProvider \<Rightarrow> event list" where
  "provider_events d urlObject q =
     snd (canSupportRequest q urlObject)
     @ (if fst (canSupportRequest q urlObject) = Inr True
        then snd (getOEmbedData q urlObject (externalRequest d)) else [])"

text \<open>The events that mark the known-provider matcher and oEmbed discovery.\<close>

fun matcher_or_discovery :: "event \<Rightarrow> bool" where
  "matcher_or_discovery (FindUrlWithProvider x) = True"
| "matcher_or_discovery (FetchOembedData x h c) = True"
| "matcher_or_discovery ev = False"

text \<open>
  The guard rejects a fetch of \<open>x\<close> with configuration \<open>c\<close>: before the request,
  or after it on the final URL of the response.
\<close>

definition guard_rejects :: "deps \<Rightarrow> string \<Rightarrow> obj \<Rightarrow> bool" where
  "guard_rejects d x c =
     (isIpOrLocalhost d x
      \<or> (case request d x c of Inl e \<Rightarrow> False | Inr r \<Rightarrow> isIpOrLocalhost d (resp_url r)))"

text \<open>
  A request event is guarded when the guard passes its URL; every other event is. A
  provider is guarded when every request in the events of its two operations is, as it
  is for a provider that reaches the network through the fetcher it is handed.
\<close>

fun guarded_event :: "deps \<Rightarrow> event \<Rightarrow> bool" where
  "guarded_event d (Request u c) = (\<not> isIpOrLocalhost d u)"
| "guarded_event d ev = True"

definition guarded_provider :: "deps \<Rightarrow> ICustomProvider \<Rightarrow> bool" where
  "guarded_provider d p =
     (\<forall>urlObject.
        list_all (guarded_event d) (snd (canSupportRequest p urlObject))
        \<and> list_all (guarded_event d) (snd (getOEmbedData p urlObject (externalRequest d))))"

subsection \<open>Incomplete oEmbed responses\<close>

text \<open>
  A \<open>photo\<close> without \<open>url\<close>, or a \<open>video\<close> or \<open>rich\<close> response without \<open>html\<close>,
  \<open>width\<close> or \<open>height\<close>. A missing field reads as \<open>undefined\<close>, which is not truthy.
\<close>

definition incomplete_oembed :: "obj \<Rightarrow> bool" where
  "incomplete_oembed ob =
     ((get_prop ob ''type'' = JStr ''photo'' \<and> \<not> truthy (get_prop ob ''url''))
      \<or> ((get_prop ob ''type'' = JStr ''video'' \<or> get_prop ob ''type'' = JStr ''rich'')
          \<and> (\<not> truthy (get_prop ob ''html'')
               \<or> \<not> truthy (get_prop ob ''width'')
               \<or> \<not> truthy (get_prop ob ''height''))))"

subsection \<open>Prefixes and the variants of a URL\<close>

text \<open>
  \<open>strip w s\<close> removes the prefix \<open>w\<close> from \<open>s\<close>, if \<open>s\<close> starts with it. The base
  of a URL is the URL without a leading \<open>//\<close>, or without a leading \<open>http://\<close> or
  \<open>https://\<close> and the \<open>www.\<close> that may follow it. \<open>variants\<close> lists the four
  candidates for a base, and \<open>first_known\<close> answers with the first candidate that the
  directory knows, or with the original URL.
\<close>

fun strip :: "string \<Rightarrow> string \<Rightarrow> string option" where
  "strip [] s = Some s"
| "strip (c # w) [] = None"
| "strip (c # w) (x # s) = (if x = c then strip w s else None)"

definition strip_www :: "string \<Rightarrow> string" where
  "strip_www s = (case strip ''www.'' s of Some r \<Rightarrow> r | None \<Rightarrow> s)"

definition baseUrl_of :: "string \<Rightarrow> string" where
  "baseUrl_of u =
     (case strip ''//'' u of
        Some r \<Rightarrow> r
      | None \<Rightarrow>
          (case strip ''http://'' u of
             Some r \<Rightarrow> strip_www r
           | None \<Rightarrow>
               (case strip ''https://'' u of
                  Some r \<Rightarrow> strip_www r
                | None \<Rightarrow> u)))"

definition variants :: "string \<Rightarrow> string list" where
  "variants b = [''http://'' @ b, ''https://'' @ b, ''http://www.'' @ b, ''https://www.'' @ b]"

definition first_known :: "(string \<Rightarrow> bool) \<Rightarrow> string list \<Rightarrow> string \<Rightarrow> string \<times> bool" where
  "first_known directory vs u =
     (case find directory vs of Some v \<Rightarrow> (v, True) | None \<Rightarrow> (u, False))"

text \<open>
  The matcher as the specification words it: any scheme (letters, digits, \<open>+\<close>, \<open>-\<close>
  and \<open>.\<close> before \<open>://\<close>) or a leading \<open>//\<close> is removed, then a leading \<open>www.\<close>.
\<close>

definition scheme_char :: "char \<Rightarrow> bool" where
  "scheme_char c =
     (in_range CHR ''a'' CHR ''z'' c \<or> in_range CHR ''A'' CHR ''Z'' c
      \<or> in_range CHR ''0'' CHR ''9'' c \<or> c \<in> set ''+-.'')"

definition strip_any_scheme :: "string \<Rightarrow> string" where
  "strip_any_scheme u =
     (case strip ''//'' u of
        Some r \<Rightarrow> r
      | None \<Rightarrow>
          (if takeWhile scheme_char u = [] then u
           else (case strip ''://'' (dropWhile scheme_char u) of
                   Some r \<Rightarrow> r
                 | None \<Rightarrow> u)))"

definition claimed_findUrlWithProvider :: "(string \<Rightarrow> bool) \<Rightarrow> string \<Rightarrow> string \<times> bool" where
  "claimed_findUrlWithProvider directory u =
     first_known directory (variants (strip_www (strip_any_scheme u))) u"

subsection \<open>What the guard's patterns recognise\<close>

text \<open>
  A protocol is an HTTP protocol when it starts with \<open>http:\<close> or \<open>https:\<close>, whatever
  the case of the letters. A dotted quad is four fields separated by dots, each of one
  to three decimal digits with a value of at most 255.
\<close>

fun starts_with_ci :: "string \<Rightarrow> string \<Rightarrow> bool" where
  "starts_with_ci [] s = True"
| "starts_with_ci (c # w) [] = False"
| "starts_with_ci (c # w) (x # s) = (lower x = lower c \<and> starts_with_ci w s)"

definition http_protocol :: "string \<Rightarrow> bool" where
  "http_protocol p = (starts_with_ci ''http:'' p \<or> starts_with_ci ''https:'' p)"

definition is_digit :: "char \<Rightarrow> bool" where
  "is_digit c = in_range CHR ''0'' CHR ''9'' c"

definition digit_value :: "char \<Rightarrow> nat" where
  "digit_value c = of_char c - 48"

definition decimal_value :: "string \<Rightarrow> nat" where
  "decimal_value s = foldl (\<lambda>n c. 10 * n + digit_value c) 0 s"

definition is_octet :: "string \<Rightarrow> bool" where
  "is_octet s = (s \<noteq> [] \<and> length s \<le> 3 \<and> list_all is_digit s \<and> decimal_value s \<le> 255)"

fun fields :: "char \<Rightarrow> string \<Rightarrow> string list" where
  "fields sep [] = [[]]"
| "fields sep (c # s) =
     (if c = sep then [] # fields sep s
      else (case fields sep s of [] \<Rightarrow> [[c]] | f # fs \<Rightarrow> (c # f) # fs))"

definition dotted_quad :: "string \<Rightarrow> bool" where
  "dotted_quad h =
     (case fields CHR ''.'' h of
        [a, b, c, e] \<Rightarrow> is_octet a \<and> is_octet b \<and> is_octet c \<and> is_octet e
      | _ \<Rightarrow> False)"

text \<open>The words a pattern matches, for reasoning about \<open>rmatch\<close>.\<close>

fun lang :: "rx \<Rightarrow> string set" where
  "lang Epsilon = {[]}"
| "lang (Lit c) = {[c]}"
| "lang (LitI c) = {[x] | x. lower x = lower c}"
| "lang (Cls a b) = {[x] | x. in_range a b x}"
| "lang (Seq p q) = {v @ w | v w. v \<in> lang p \<and> w \<in> lang q}"
| "lang (Alt p q) = lang p \<union> lang q"
| "lang (Opt p) = lang p \<union> {[]}"

section \<open>An example deployment\<close>

text \<open>
  A small installation at \<open>http://blog.example/\<close> on which the statements below are
  instantiated. Its \<open>URL\<close> constructor knows a handful of addresses; every other string
  fails to parse.
\<close>

definition mkURL :: "string \<Rightarrow> string \<Rightarrow> string \<Rightarrow> URL" where
  "mkURL p hn h = \<lparr>protocol = p, hostname = hn, host = h\<rparr>"

definition example_new_URL :: "string \<Rightarrow> URL option" where
  "example_new_URL = map_of
     [(''http://blog.example/'', mkURL ''http:'' ''blog.example'' ''blog.example''),
      (''https://page.example/post'', mkURL ''https:'' ''page.example'' ''page.example''),
      (''https://page.example/photo'', mkURL ''https:'' ''page.example'' ''page.example''),
      (''https://page.example/internal'', mkURL ''https:'' ''page.example'' ''page.example''),
      (''https://page.example/untitled'', mkURL ''https:'' ''page.example'' ''page.example''),
      (''https://page.example/oembed.json'', mkURL ''https:'' ''page.example'' ''page.example''),
      (''https://moved.example/'', mkURL ''https:'' ''moved.example'' ''moved.example''),
      (''https://short.example/x'', mkURL ''https:'' ''short.example'' ''short.example''),
      (''https://video.example/watch'', mkURL ''https:'' ''video.example'' ''video.example''),
      (''http://127.0.0.1/admin'', mkURL ''http:'' ''127.0.0.1'' ''127.0.0.1''),
      (''http://localhost:2368/'', mkURL ''http:'' ''localhost'' ''localhost:2368''),
      (''http://[::1]/'', mkURL ''http:'' ''[::1]'' ''[::1]''),
      (''ftp://files.example/'', mkURL ''ftp:'' ''files.example'' ''files.example'')]"

definition page_response :: "string \<Rightarrow> jsval \<Rightarrow> response" where
  "page_response u b = \<lparr>resp_url = u, resp_body = b, resp_headers = []\<rparr>"

definition example_request :: "string \<Rightarrow> obj \<Rightarrow> exn + response" where
  "example_request u c =
     (if u = ''https://page.example/post''
      then Inr (page_response u (JStr ''<html>post</html>''))
      else if u = ''https://page.example/photo''
      then Inr (page_response u (JStr ''<html>photo</html>''))
      else if u = ''https://page.example/internal''
      then Inr (page_response u (JStr ''<html>internal</html>''))
      else if u = ''https://page.example/untitled''
      then Inr (page_response u (JStr ''<html>untitled</html>''))
      else if u = ''https://page.example/oembed.json''
      then Inr (page_response u (JObj [(''type'', JStr ''photo''), (''version'', JStr ''1.0'')]))
      else if u = ''https://short.example/x''
      then Inr (page_response ''https://page.example/post'' (JStr ''<html>post</html>''))
      else if u = ''https://moved.example/''
      then Inr (page_response ''http://127.0.0.1/admin'' (JStr ''secret''))
      else Inl (Thrown ''ENOTFOUND''))"

definition example_cheerio_href :: "string \<Rightarrow> exn + string option" where
  "example_cheerio_href html =
     (if html = ''<html>photo</html>'' then Inr (Some ''https://page.example/oembed.json'')
      else if html = ''<html>internal</html>'' then Inr (Some ''http://127.0.0.1/admin'')
      else Inr None)"

definition example_metascraper :: "string \<Rightarrow> string \<Rightarrow> exn + obj" where
  "example_metascraper html u =
     (if html = ''<html>untitled</html>''
      then Inr [(''url'', JStr u), (''title'', JNull)]
      else Inr [(''url'', JStr u),
                (''title'', JStr ''Example''),
                (''image'', JStr ''http://x/img.png''),
                (''logo'', JStr ''http://x/favicon.ico'')])"

definition example :: deps where
  "example =
     \<lparr>config_get_url = ''http://blog.example/'',
      new_URL = example_new_URL,
      request = example_request,
      hasProvider = (\<lambda>u. u = ''https://www.video.example/watch''),
      oembed_extract = (\<lambda>u. Inl (Thrown ''Request failed with error code 401'')),
      cheerio_href = example_cheerio_href,
      metascraper = example_metascraper,
      charset = (\<lambda>headers body. Inr None),
      iconv_decode = (\<lambda>body enc. Inl (Thrown ''Encoding not recognized'')),
      customProviders = []\<rparr>"

text \<open>The bookmark card of a page of the example that has a title.\<close>

definition example_bookmark :: "string \<Rightarrow> jsval" where
  "example_bookmark u =
     JObj [(''version'', JStr ''1.0''),
           (''type'', JStr ''bookmark''),
           (''url'', JStr u),
           (''metadata'', JObj [(''url'', JStr u),
                                (''title'', JStr ''Example''),
                                (''thumbnail'', JStr ''http://x/img.png''),
                                (''icon'', JStr ''http://x/favicon.ico'')])]"

text \<open>
  Two providers: one accepts every URL, asks the guarded fetcher for a document and
  declines with \<open>null\<close>; the other accepts \<open>page.example\<close> and answers with a fixed
  link embed.
\<close>

definition asking_provider :: ICustomProvider where
  "asking_provider =
     \<lparr>canSupportRequest = (\<lambda>urlObject. resolve True),
      getOEmbedData = (\<lambda>urlObject fetcher.
         await (fetcher ''https://page.example/oembed.json'' []) (\<lambda>r. resolve JNull))\<rparr>"

definition link_embed :: jsval where
  "link_embed = JObj [(''type'', JStr ''link''), (''version'', JStr ''1.0'')]"

definition fixed_provider :: ICustomProvider where
  "fixed_provider =
     \<lparr>canSupportRequest = (\<lambda>urlObject. resolve (host urlObject = ''page.example'')),
      getOEmbedData = (\<lambda>urlObject fetcher. resolve link_embed)\<rparr>"

definition example_with_providers :: deps where
  "example_with_providers = registerProvider fixed_provider (registerProvider asking_provider example)"

text \<open>The same installation with a site URL that does not parse.\<close>

definition misconfigured :: deps where
  "misconfigured = example\<lparr>config_get_url := ''blog.example''\<rparr>"

text \<open>The same installation served from \<open>http://localhost:2368/\<close>.\<close>

definition local_blog :: deps where
  "local_blog = example\<lparr>config_get_url := ''http://localhost:2368/''\<rparr>"

text \<open>The misconfigured installation with the two providers registered.\<close>

definition misconfigured_with_providers :: deps where
  "misconfigured_with_providers = example_with_providers\<lparr>config_get_url := ''blog.example''\<rparr>"

text \<open>
  The same misconfigured installation with a video provider whose endpoint answers.
\<close>

definition video_embed :: jsval where
  "video_embed =
     JObj [(''type'', JStr ''video''), (''version'', JStr ''1.0''),
           (''html'', JStr ''<iframe></iframe>''), (''width'', JNum 640), (''height'', JNum 360)]"

definition misconfigured_video :: deps where
  "misconfigured_video = misconfigured\<lparr>oembed_extract := (\<lambda>u. Inr video_embed)\<rparr>"

text \<open>
  The example behind a URL constructor that also accepts one padded string: the
  constructor ignores the spaces around a URL.
\<close>

definition padded_url :: string where
  "padded_url = '' https://short.example/x  ''"

definition padded :: deps where
  "padded =
     example\<lparr>new_URL :=
       example_new_URL(padded_url \<mapsto> mkURL ''https:'' ''short.example'' ''short.example'')\<rparr>"

section \<open>Reasoning about promises\<close>

lemma fst_await [simp]:
  "fst (await m f) = (case fst m of Inl e \<Rightarrow> Inl e | Inr x \<Rightarrow> fst (f x))"
  by (cases m) (simp add: await_def split: sum.splits prod.splits)

lemma snd_await [simp]:
  "snd (await m f) = snd m @ (case fst m of Inl e \<Rightarrow> [] | Inr x \<Rightarrow> snd (f x))"
  by (cases m) (simp add: await_def split: sum.splits prod.splits)

lemma fst_try_catch [simp]:
  "fst (try_catch m h) = (case fst m of Inl e \<Rightarrow> fst (h e) | Inr x \<Rightarrow> Inr x)"
  by (cases m) (simp add: try_catch_def split: sum.splits prod.splits)

lemma snd_try_catch [simp]:
  "snd (try_catch m h) = snd m @ (case fst m of Inl e \<Rightarrow> snd (h e) | Inr x \<Rightarrow> [])"
  by (cases m) (simp add: try_catch_def split: sum.splits prod.splits)

lemma fst_async_try_catch [simp]:
  "fst (async_try_catch m h) = (case fst m of Inl e \<Rightarrow> fst (h e) | Inr r \<Rightarrow> r)"
  by (cases m) (simp add: async_try_catch_def split: sum.splits prod.splits)

lemma snd_async_try_catch [simp]:
  "snd (async_try_catch m h) = snd m @ (case fst m of Inl e \<Rightarrow> snd (h e) | Inr r \<Rightarrow> [])"
  by (cases m) (simp add: async_try_catch_def split: sum.splits prod.splits)

lemma fst_reject [simp]: "fst (reject e) = Inl e"
  by (simp add: reject_def)

lemma snd_reject [simp]: "snd (reject e) = []"
  by (simp add: reject_def)

lemma fst_resolve [simp]: "fst (resolve x) = Inr x"
  by (simp add: resolve_def)

lemma snd_resolve [simp]: "snd (resolve x) = []"
  by (simp add: resolve_def)

lemma fst_emit [simp]: "fst (emit ev) = Inr ()"
  by (simp add: emit_def)

lemma snd_emit [simp]: "snd (emit ev) = [ev]"
  by (simp add: emit_def)

lemma fst_lift [simp]: "fst (lift r) = r"
  by (simp add: lift_def)

lemma snd_lift [simp]: "snd (lift r) = []"
  by (simp add: lift_def)

lemma fst_return_value [simp]: "fst (return_value x) = Inr (Inr x)"
  by (simp add: return_value_def)

lemma snd_return_value [simp]: "snd (return_value x) = []"
  by (simp add: return_value_def)

lemma fst_return_promise [simp]: "fst (return_promise p) = Inr (fst p)"
  by (simp add: return_promise_def)

lemma snd_return_promise [simp]: "snd (return_promise p) = snd p"
  by (simp add: return_promise_def)

lemma fst_unknownProvider [simp]:
  "fst (unknownProvider u) = Inl (ValidationError messages_unknownProvider u)"
  by (simp add: unknownProvider_def)

lemma snd_unknownProvider [simp]: "snd (unknownProvider u) = []"
  by (simp add: unknownProvider_def)

section \<open>Evaluation on the example deployment\<close>

lemmas example_simps =
  example_def example_new_URL_def example_request_def example_cheerio_href_def
  example_metascraper_def mkURL_def page_response_def example_with_providers_def
  asking_provider_def fixed_provider_def link_embed_def misconfigured_def registerProvider_def

lemmas regex_simps =
  test_start_def test_whole_def HTTP_REGEX_def IPV4_REGEX_def IPV4_OCTET_def IPV6_REGEX_def
  WP_OEMBED_REGEX_def SCHEME_WWW_REGEX_def replace_start_def lower_def in_range_def

lemmas stage_simps =
  fetchOembedDataFromUrl_def try_block_def match_or_fetch_def fetch_and_resolve_def
  discover_or_bookmark_def fetchOembedData_def validate_oembed_def fetchBookmarkData_def
  fetchPageHtml_def fetchPageJson_def fetchPage_def decode_body_def knownProvider_def
  externalRequest_def isIpOrLocalhost_def catch_block_def findUrlWithProvider_def
  bookmark_metadata_def html_options_def json_options_def request_config_def trim_def
  is_space_def is_white_space_def
  assign_def set_prop_def delete_prop_def get_prop_def knownFields_def
  messages_unknownProvider_def messages_insufficientMetadata_def

section \<open>Objects\<close>

lemma map_of_set_prop: "map_of (set_prop k v ob) = (map_of ob)(k \<mapsto> v)"
  unfolding set_prop_def by (rule update_conv')

lemma map_of_assign: "map_of (assign t s) = map_of t ++ map_of (rev s)"
proof (induction s arbitrary: t)
  case Nil
  then show ?case by (simp add: assign_def)
next
  case (Cons p s)
  obtain k v where p: "p = (k, v)" by (cases p)
  have "assign t (p # s) = assign (set_prop k v t) s"
    by (simp add: assign_def p)
  then have "map_of (assign t (p # s)) = (map_of t)(k \<mapsto> v) ++ map_of (rev s)"
    by (simp only: Cons.IH map_of_set_prop)
  also have "\<dots> = map_of t ++ map_of (rev (p # s))"
    by (simp add: p map_add_def fun_eq_iff split: option.splits)
  finally show ?case .
qed

lemma map_of_rev_distinct: "distinct (map fst xs) \<Longrightarrow> map_of (rev xs) = map_of xs"
proof (induction xs)
  case Nil
  then show ?case by simp
next
  case (Cons p xs)
  obtain k v where p: "p = (k, v)" by (cases p)
  from Cons.prems have k: "k \<notin> fst ` set xs" and d: "distinct (map fst xs)"
    by (simp_all add: p)
  from k have "map_of xs k = None"
    by (simp add: map_of_eq_None_iff)
  then show ?case
    by (simp add: p Cons.IH [OF d] map_add_def fun_eq_iff split: option.splits)
qed

lemma get_prop_bookmark_metadata_thumbnail:
  "get_prop (bookmark_metadata sr) ''thumbnail'' = get_prop sr ''image''"
  by (simp add: get_prop_def bookmark_metadata_def delete_prop_def delete_conv' map_of_assign
      map_add_def)

lemma get_prop_bookmark_metadata_icon:
  "get_prop (bookmark_metadata sr) ''icon'' = get_prop sr ''logo''"
  by (simp add: get_prop_def bookmark_metadata_def delete_prop_def delete_conv' map_of_assign
      map_add_def)

lemma keys_delete_prop: "fst ` set (delete_prop k ob) = fst ` set ob - {k}"
  by (induction ob) (auto simp: delete_prop_def)

lemma bookmark_metadata_no_image: "''image'' \<notin> fst ` set (bookmark_metadata sr)"
  by (simp add: bookmark_metadata_def keys_delete_prop)

lemma bookmark_metadata_no_logo: "''logo'' \<notin> fst ` set (bookmark_metadata sr)"
  by (simp add: bookmark_metadata_def keys_delete_prop)

lemma get_prop_bookmark_metadata_other:
  assumes "distinct (map fst sr)" and "k \<notin> {''thumbnail'', ''icon'', ''image'', ''logo''}"
  shows "get_prop (bookmark_metadata sr) k = get_prop sr k"
  using assms(2)
  by (simp add: get_prop_def bookmark_metadata_def delete_prop_def delete_conv' map_of_assign
      map_add_def map_of_rev_distinct [OF assms(1)] split: option.splits)

section \<open>The provider loop\<close>

lemma loop_declined:
  assumes "declines d urlObject q"
  shows "customProviders_loop d (q # rest) urlObject =
         (fst (customProviders_loop d rest urlObject),
          provider_events d urlObject q @ snd (customProviders_loop d rest urlObject))"
  using assms by (auto simp: declines_def provider_events_def prod_eq_iff)

lemma loop_accepted:
  assumes "fst (canSupportRequest q urlObject) = Inr True"
      and "fst (getOEmbedData q urlObject (externalRequest d)) = Inr result"
      and "result \<noteq> JNull"
  shows "customProviders_loop d (q # rest) urlObject =
         (Inr (Some result), provider_events d urlObject q)"
  using assms by (auto simp: provider_events_def prod_eq_iff)

lemma loop_first_result:
  assumes "\<forall>q \<in> set before. declines d urlObject q"
      and "fst (canSupportRequest p urlObject) = Inr True"
      and "fst (getOEmbedData p urlObject (externalRequest d)) = Inr result"
      and "result \<noteq> JNull"
  shows "customProviders_loop d (before @ p # after) urlObject =
         (Inr (Some result), concat (map (provider_events d urlObject) (before @ [p])))"
  using assms(1)
proof (induction before)
  case Nil
  then show ?case using loop_accepted [OF assms(2-4)] by simp
next
  case (Cons q before)
  then show ?case by (simp add: loop_declined del: customProviders_loop.simps)
qed

lemma loop_all_declined:
  assumes "\<forall>q \<in> set ps. declines d urlObject q"
  shows "customProviders_loop d ps urlObject =
         (Inr None, concat (map (provider_events d urlObject) ps))"
  using assms
  by (induction ps) (simp_all add: loop_declined prod_eq_iff del: customProviders_loop.simps(2))

lemma resolution_after_providers:
  assumes "new_URL d u = Some urlObject"
      and "customProviders_loop d (customProviders d) urlObject = (Inr None, evs)"
  shows "fetchOembedDataFromUrl d u type =
         (fst (async_try_catch (match_or_fetch d (trim u) type) (catch_block (trim u))),
          evs @ snd (async_try_catch (match_or_fetch d (trim u) type) (catch_block (trim u))))"
  using assms
  by (simp add: fetchOembedDataFromUrl_def try_block_def prod_eq_iff)

lemma resolution_provider_failed:
  assumes "new_URL d u = Some urlObject"
      and "customProviders_loop d (customProviders d) urlObject = (Inl e, evs)"
  shows "fetchOembedDataFromUrl d u type =
          (fst (catch_block (trim u) e), evs @ snd (catch_block (trim u) e))"
  using assms
  by (simp add: fetchOembedDataFromUrl_def try_block_def prod_eq_iff)

section \<open>Events and results of the stages\<close>

lemma externalRequest_events:
  assumes "ev \<in> set (snd (externalRequest d u c))"
  shows "ev = Request u c"
  using assms by (cases "request d u c") (auto simp: externalRequest_def split: if_splits)

lemma fetchPage_events:
  assumes "ev \<in> set (snd (fetchPage d u opts))"
  shows "ev = FetchPage u opts \<or> (\<exists>c. ev = Request u c)"
  using assms by (auto simp: fetchPage_def dest: externalRequest_events)

lemma toString_error: "toString v = Inl x \<Longrightarrow> x = Thrown ''TypeError''"
  by (cases v) auto

lemma decode_body_cases:
  "(\<exists>s. decode_body d r = (Inr (resp_url r, s), []))
   \<or> (\<exists>s e. decode_body d r = (Inr (resp_url r, s), [LoggingError e]))
   \<or> decode_body d r = (Inl (Thrown ''TypeError''), [])
   \<or> (\<exists>e. decode_body d r = (Inl (Thrown ''TypeError''), [LoggingError e]))"
proof (cases "charset d (resp_headers r) (resp_body r)")
  case (Inl e)
  then show ?thesis
    by (cases "toString (resp_body r)")
       (auto simp: decode_body_def Let_def prod_eq_iff dest: toString_error)
next
  case (Inr encoding)
  show ?thesis
  proof (cases encoding)
    case None
    with Inr show ?thesis
      by (cases "toString (resp_body r)")
         (auto simp: decode_body_def Let_def prod_eq_iff dest: toString_error)
  next
    case (Some enc)
    with Inr show ?thesis
      by (cases "iconv_decode d (resp_body r) enc"; cases "toString (resp_body r)")
         (auto simp: decode_body_def Let_def prod_eq_iff dest: toString_error)
  qed
qed

lemma decode_body_events:
  assumes "ev \<in> set (snd (decode_body d r))"
  shows "\<exists>e. ev = LoggingError e"
  using assms decode_body_cases [of d r] by auto

lemma decode_body_result:
  assumes "fst (decode_body d r) = Inr (pageUrl, body)"
  shows "pageUrl = resp_url r"
  using assms decode_body_cases [of d r] by auto

lemma decode_body_error:
  assumes "fst (decode_body d r) = Inl e"
  shows "e = Thrown ''TypeError''"
  using assms decode_body_cases [of d r] by auto

lemma fetchPageHtml_events:
  assumes "ev \<in> set (snd (fetchPageHtml d u))"
  shows "(\<exists>opts. ev = FetchPage u opts) \<or> (\<exists>c. ev = Request u c) \<or> (\<exists>e. ev = LoggingError e)"
  using assms
  by (auto simp: fetchPageHtml_def dest: fetchPage_events decode_body_events split: sum.splits)

lemma fetchPageJson_events:
  assumes "ev \<in> set (snd (fetchPageJson d u))"
  shows "(\<exists>opts. ev = FetchPage u opts) \<or> (\<exists>c. ev = Request u c)"
  using assms
  by (auto simp: fetchPageJson_def dest: fetchPage_events split: sum.splits)

lemma fetchBookmarkData_events:
  assumes "ev \<in> set (snd (fetchBookmarkData d u h))"
  shows "ev = FetchBookmarkData u h \<or> (\<exists>e. ev = LoggingError e)"
  using assms
  by (auto simp: fetchBookmarkData_def Let_def split: sum.splits if_splits)

lemma fetchBookmarkData_result:
  "(\<exists>m. fst (fetchBookmarkData d u h) = Inl (ValidationError m u)
        \<and> (m = messages_unknownProvider \<or> m = messages_insufficientMetadata))
   \<or> (\<exists>ob. fst (fetchBookmarkData d u h) = Inr (JObj ob))"
  by (cases "metascraper d h u") (auto simp: fetchBookmarkData_def Let_def)

lemma catch_block_events:
  assumes "ev \<in> set (snd (catch_block u e))"
  shows "\<exists>e. ev = LoggingError e"
  using assms by (auto simp: catch_block_def split: if_splits)

lemma catch_block_result:
  "fst (catch_block u e) =
     Inl (if isValidationError e then e else ValidationError messages_unknownProvider u)"
  by (simp add: catch_block_def)

section \<open>The bookmark route\<close>

lemma bookmark_stage:
  "match_or_fetch d x (JStr ''bookmark'') =
     await (fetchPageHtml d x) (\<lambda>(pageUrl, body). return_promise (fetchBookmarkData d x body))"
  by (simp add: match_or_fetch_def fetch_and_resolve_def)

lemma bookmark_stage_events:
  assumes "ev \<in> set (snd (async_try_catch (match_or_fetch d x (JStr ''bookmark'')) (catch_block x)))"
  shows "\<not> matcher_or_discovery ev
         \<and> (\<forall>y h. ev = FetchBookmarkData y h \<longrightarrow>
               y = x \<and> (\<exists>pageUrl. fst (fetchPageHtml d x) = Inr (pageUrl, h)))"
  using assms
  by (auto simp: bookmark_stage split: sum.splits prod.splits
      dest!: fetchPageHtml_events fetchBookmarkData_events catch_block_events)

lemma dropWhile_id: "xs \<noteq> [] \<Longrightarrow> \<not> P (hd xs) \<Longrightarrow> dropWhile P xs = xs"
  by (cases xs) auto

lemma trim_id:
  assumes "u = [] \<or> (\<not> is_space (hd u) \<and> \<not> is_space (last u))"
  shows "trim u = u"
proof (cases "u = []")
  case True
  then show ?thesis by (simp add: trim_def)
next
  case False
  with assms have a: "\<not> is_space (hd u)" and b: "\<not> is_space (hd (rev u))"
    by (auto simp: hd_rev)
  from False a have "dropWhile is_space u = u" by (rule dropWhile_id)
  moreover from False b have "dropWhile is_space (rev u) = rev u"
    by (intro dropWhile_id) auto
  ultimately show ?thesis by (simp add: trim_def)
qed


lemma fetchPage_eq:
  "fetchPage d u options =
     (fst (externalRequest d u (request_config options)),
      FetchPage u options # snd (externalRequest d u (request_config options)))"
  by (simp add: fetchPage_def prod_eq_iff)

lemma externalRequest_ValidationError:
  assumes "fst (externalRequest d x c) = Inl (ValidationError m k)"
      and "\<forall>m k. request d x c \<noteq> Inl (ValidationError m k)"
  shows "m = messages_unknownProvider \<and> k = x \<and> guard_rejects d x c"
  using assms
  by (cases "request d x c") (auto simp: externalRequest_def guard_rejects_def split: if_splits)

lemma fetchPage_ValidationError:
  assumes "fst (fetchPage d x options) = Inl (ValidationError m k)"
      and "\<forall>c m k. request d x c \<noteq> Inl (ValidationError m k)"
  shows "m = messages_unknownProvider \<and> k = x \<and> guard_rejects d x (request_config options)"
  using assms externalRequest_ValidationError [of d x "request_config options" m k]
  by (simp add: fetchPage_eq)

lemma fetchPageHtml_ValidationError:
  assumes "fst (fetchPageHtml d x) = Inl (ValidationError m k)"
      and "\<forall>c m k. request d x c \<noteq> Inl (ValidationError m k)"
  shows "m = messages_unknownProvider \<and> k = x \<and> guard_rejects d x (request_config html_options)"
  using assms fetchPage_ValidationError [of d x html_options m k]
  by (auto simp: fetchPageHtml_def split: sum.splits dest: decode_body_error)

lemma fetchPageJson_ValidationError:
  assumes "fst (fetchPageJson d x) = Inl (ValidationError m k)"
      and "\<forall>c m k. request d x c \<noteq> Inl (ValidationError m k)"
  shows "m = messages_unknownProvider \<and> k = x \<and> guard_rejects d x (request_config json_options)"
  using assms fetchPage_ValidationError [of d x json_options m k]
  by (auto simp: fetchPageJson_def split: sum.splits)

lemma member_error: "member v k = Inl e \<Longrightarrow> e = Thrown ''TypeError''"
  by (cases v) auto

lemma validate_oembed_error:
  assumes "fst (validate_oembed body) = Inl e"
  shows "e = Thrown ''TypeError''"
  using assms
  by (auto simp: validate_oembed_def Let_def split: sum.splits if_splits dest: member_error)

lemma validate_oembed_events [simp]: "snd (validate_oembed body) = []"
  by (auto simp: validate_oembed_def Let_def split: sum.splits)

lemma fetchOembedData_ValidationError:
  assumes "fst (fetchOembedData d x html ct) = Inl (ValidationError m k)"
      and "\<forall>y c m k. request d y c \<noteq> Inl (ValidationError m k)"
  shows "m = messages_unknownProvider
         \<and> (k = x \<or> (cheerio_href d html = Inr (Some k)
                       \<and> guard_rejects d k (request_config json_options)))"
proof (cases "cheerio_href d html")
  case (Inl e)
  with assms(1) show ?thesis by (simp add: fetchOembedData_def)
next
  case (Inr found)
  show ?thesis
  proof (cases found)
    case None
    with Inr assms(1) show ?thesis by (simp add: fetchOembedData_def)
  next
    case (Some h)
    show ?thesis
    proof (cases "fst (fetchPageJson d h)")
      case (Inl e)
      with Inr Some assms(1) have "e = ValidationError m k"
        by (simp add: fetchOembedData_def split: if_splits)
      with Inl fetchPageJson_ValidationError [of d h m k] assms(2) Inr Some
      show ?thesis by simp
    next
      case (Inr r)
      with \<open>cheerio_href d html = Inr found\<close> Some assms(1) show ?thesis
        by (auto simp: fetchOembedData_def split: if_splits dest: validate_oembed_error)
    qed
  qed
qed

lemma knownProvider_eq:
  "knownProvider d x =
     (case oembed_extract d x of
        Inl err \<Rightarrow> Inl (InternalServerError (message err) None)
      | Inr v \<Rightarrow> Inr v,
      [Extract x])"
  by (simp add: knownProvider_def prod_eq_iff split: sum.splits)

section \<open>Escaped and caught errors of the orchestrator's stages\<close>

lemma isValidationError_iff: "isValidationError e \<longleftrightarrow> (\<exists>m c. e = ValidationError m c)"
  by (cases e) auto

lemma discover_escaped:
  assumes "fst (discover_or_bookmark d x body type) = Inr (Inl e)"
  shows "e = ValidationError messages_unknownProvider x"
  using assms
  by (auto simp: discover_or_bookmark_def split: sum.splits if_splits)

lemma fetch_and_resolve_escaped:
  assumes "fst (fetch_and_resolve d x type) = Inr (Inl e)"
  shows "isValidationError e \<or> (\<exists>m. e = InternalServerError m None)"
proof (cases "fst (fetchPageHtml d x)")
  case (Inl a)
  with assms show ?thesis by (simp add: fetch_and_resolve_def)
next
  case (Inr page)
  obtain pageUrl body where page: "page = (pageUrl, body)" by (cases page)
  from assms Inr page fetchBookmarkData_result [of d x body] show ?thesis
    by (auto simp: fetch_and_resolve_def knownProvider_eq
        split: if_splits prod.splits sum.splits dest: discover_escaped)
qed

lemma match_or_fetch_escaped:
  assumes "fst (match_or_fetch d x type) = Inr (Inl e)"
  shows "isValidationError e \<or> (\<exists>m. e = InternalServerError m None)"
  using assms
  by (auto simp: match_or_fetch_def knownProvider_eq
      split: if_splits prod.splits sum.splits dest: fetch_and_resolve_escaped)

lemma try_block_escaped:
  assumes "fst (try_block d urlObject x type) = Inr (Inl e)"
  shows "isValidationError e \<or> (\<exists>m. e = InternalServerError m None)"
  using assms
  by (auto simp: try_block_def split: sum.splits option.splits dest: match_or_fetch_escaped)

lemma resolution_errors:
  assumes "fst (fetchOembedDataFromUrl d u type) = Inl e"
  shows "isValidationError e \<or> (\<exists>m. e = InternalServerError m None)"
  using assms
  by (auto simp: fetchOembedDataFromUrl_def catch_block_result
      split: option.splits sum.splits if_splits dest: try_block_escaped)

section \<open>Paths through the orchestrator\<close>

lemma resolution_reaches_page:
  assumes "new_URL d u = Some urlObject"
      and "customProviders_loop d (customProviders d) urlObject = (Inr None, evs)"
      and "type = JStr ''bookmark'' \<or> \<not> snd (findUrlWithProvider (hasProvider d) (trim u))"
  shows "fetchOembedDataFromUrl d u type =
         (fst (async_try_catch (fetch_and_resolve d (trim u) type) (catch_block (trim u))),
          evs @ (if type \<noteq> JStr ''bookmark'' then [FindUrlWithProvider (trim u)] else [])
          @ snd (async_try_catch (fetch_and_resolve d (trim u) type) (catch_block (trim u))))"
  using assms(3)
  by (auto simp: resolution_after_providers [OF assms(1,2)] match_or_fetch_def
      split: prod.splits)

lemma fetch_and_resolve_reaches_discovery:
  assumes "type \<noteq> JStr ''bookmark''"
      and "fetchPageHtml d x = (Inr (pageUrl, body), t)"
      and "pageUrl = x \<or> \<not> snd (findUrlWithProvider (hasProvider d) pageUrl)"
  shows "fetch_and_resolve d x type =
         (fst (discover_or_bookmark d x body type),
          t @ (if pageUrl \<noteq> x then [FindUrlWithProvider pageUrl] else [])
          @ snd (discover_or_bookmark d x body type))"
  using assms
  by (auto simp: fetch_and_resolve_def prod_eq_iff split: prod.splits)

lemma discover_falls_back:
  assumes "fst (fetchOembedData d x body JUndefined) = Inr data"
      and "\<not> truthy data" and "\<not> truthy type"
  shows "async_try_catch (discover_or_bookmark d x body type) (catch_block x) =
         (fst (fetchBookmarkData d x body),
          snd (fetchOembedData d x body JUndefined) @ snd (fetchBookmarkData d x body))"
  using assms fetchBookmarkData_result [of d x body]
  by (auto simp: discover_or_bookmark_def prod_eq_iff catch_block_def)

lemma resolution_falls_back:
  assumes "new_URL d u = Some urlObject"
      and "customProviders_loop d (customProviders d) urlObject = (Inr None, evs)"
      and "\<not> truthy type"
      and "\<not> snd (findUrlWithProvider (hasProvider d) (trim u))"
      and "fetchPageHtml d (trim u) = (Inr (pageUrl, body), t)"
      and "pageUrl = trim u \<or> \<not> snd (findUrlWithProvider (hasProvider d) pageUrl)"
      and "fst (fetchOembedData d (trim u) body JUndefined) = Inr data"
      and "\<not> truthy data"
  shows "fetchOembedDataFromUrl d u type =
         (fst (fetchBookmarkData d (trim u) body),
          evs @ [FindUrlWithProvider (trim u)] @ t
          @ (if pageUrl \<noteq> trim u then [FindUrlWithProvider pageUrl] else [])
          @ snd (fetchOembedData d (trim u) body JUndefined)
          @ snd (fetchBookmarkData d (trim u) body))"
proof -
  from assms(3) have nb: "type \<noteq> JStr ''bookmark''" by auto
  have "async_try_catch (fetch_and_resolve d (trim u) type) (catch_block (trim u)) =
        (fst (fetchBookmarkData d (trim u) body),
         t @ (if pageUrl \<noteq> trim u then [FindUrlWithProvider pageUrl] else [])
         @ snd (fetchOembedData d (trim u) body JUndefined)
         @ snd (fetchBookmarkData d (trim u) body))"
    using discover_falls_back [OF assms(7,8,3)]
    by (simp add: fetch_and_resolve_reaches_discovery [OF nb assms(5,6)] prod_eq_iff)
  with nb show ?thesis
    using resolution_reaches_page [OF assms(1,2), of type] assms(4) by simp
qed

section \<open>The discoverer on incomplete bodies\<close>

lemma map_of_pick:
  "map_of (pick (JObj ob) ks) k = (if k \<in> set ks then map_of ob k else None)"
  by (induction ks) (auto split: option.splits)

lemma get_prop_pick:
  "k \<in> set ks \<Longrightarrow> get_prop (pick (JObj ob) ks) k = get_prop ob k"
  by (simp add: get_prop_def map_of_pick del: pick.simps)

lemma validate_incomplete:
  assumes "incomplete_oembed ob"
  shows "validate_oembed (JObj ob) = (Inr JUndefined, [])"
proof -
  have fields: "\<And>k. k \<in> set knownFields \<Longrightarrow>
      get_prop (pick (JObj ob) knownFields) k = get_prop ob k"
    by (rule get_prop_pick)
  have known: "''type'' \<in> set knownFields" "''url'' \<in> set knownFields"
    "''html'' \<in> set knownFields" "''width'' \<in> set knownFields"
    "''height'' \<in> set knownFields"
    by (simp_all add: knownFields_def)
  note picked = known [THEN fields]
  from assms show ?thesis
    unfolding validate_oembed_def incomplete_oembed_def Let_def
    by (auto simp: picked prod_eq_iff simp del: pick.simps)
qed

lemma fetchOembedData_incomplete:
  assumes "cheerio_href d html = Inr (Some h)"
      and "fst (fetchPageJson d h) = Inr (jsonUrl, JObj ob)"
      and "incomplete_oembed ob"
  shows "fst (fetchOembedData d u html cardType) = Inr JUndefined"
  using assms by (simp add: fetchOembedData_def validate_incomplete)

section \<open>The context of surfaced validation errors\<close>

lemma discover_ValidationError:
  assumes "fst (async_try_catch (discover_or_bookmark d x body type) (catch_block x))
             = Inl (ValidationError m k)"
      and "\<forall>y c m k. request d y c \<noteq> Inl (ValidationError m k)"
  shows "(m = messages_unknownProvider
            \<and> (k = x \<or> (cheerio_href d body = Inr (Some k)
                          \<and> guard_rejects d k (request_config json_options))))
         \<or> (m = messages_insufficientMetadata \<and> k = x)"
proof (cases "fst (fetchOembedData d x body JUndefined)")
  case (Inl e)
  show ?thesis
  proof (cases "isValidationError e")
    case True
    with Inl assms(1) have "e = ValidationError m k"
      by (simp add: discover_or_bookmark_def catch_block_def)
    with Inl fetchOembedData_ValidationError [OF _ assms(2), of x body JUndefined m k]
    show ?thesis by simp
  next
    case False
    with Inl assms(1) show ?thesis
      by (simp add: discover_or_bookmark_def catch_block_def)
  qed
next
  case (Inr data)
  with assms(1) fetchBookmarkData_result [of d x body] show ?thesis
    by (auto simp: discover_or_bookmark_def catch_block_def split: if_splits sum.splits)
qed

lemma fetch_and_resolve_ValidationError:
  assumes "fst (async_try_catch (fetch_and_resolve d x type) (catch_block x))
             = Inl (ValidationError m k)"
      and "\<forall>y c m k. request d y c \<noteq> Inl (ValidationError m k)"
  shows "(m = messages_unknownProvider
            \<and> (k = x \<or> (\<exists>pageUrl body. fst (fetchPageHtml d x) = Inr (pageUrl, body)
                          \<and> cheerio_href d body = Inr (Some k)
                          \<and> guard_rejects d k (request_config json_options))))
         \<or> (m = messages_insufficientMetadata \<and> k = x)"
proof (cases "fst (fetchPageHtml d x)")
  case (Inl e)
  show ?thesis
  proof (cases "isValidationError e")
    case True
    with Inl assms(1) have "e = ValidationError m k"
      by (simp add: fetch_and_resolve_def catch_block_def)
    with Inl fetchPageHtml_ValidationError [of d x m k] assms(2) show ?thesis by simp
  next
    case False
    with Inl assms(1) show ?thesis by (simp add: fetch_and_resolve_def catch_block_def)
  qed
next
  case (Inr page)
  obtain pageUrl body where page: "page = (pageUrl, body)" by (cases page)
  show ?thesis
  proof (cases "type = JStr ''bookmark''")
    case True
    with Inr page assms(1) fetchBookmarkData_result [of d x body] show ?thesis
      by (auto simp: fetch_and_resolve_def)
  next
    case False
    show ?thesis
    proof (cases "pageUrl \<noteq> x \<and> snd (findUrlWithProvider (hasProvider d) pageUrl)")
      case True
      with Inr page False assms(1) show ?thesis
        by (auto simp: fetch_and_resolve_def knownProvider_eq split: prod.splits sum.splits)
    next
      case no_match: False
      then have "fst (async_try_catch (fetch_and_resolve d x type) (catch_block x)) =
          fst (async_try_catch (discover_or_bookmark d x body type) (catch_block x))"
        using Inr page False by (auto simp: fetch_and_resolve_def split: prod.splits)
      with assms(1) discover_ValidationError [OF _ assms(2), of x body type m k] Inr page
      show ?thesis by auto
    qed
  qed
qed

lemma match_or_fetch_ValidationError:
  assumes "fst (async_try_catch (match_or_fetch d x type) (catch_block x))
             = Inl (ValidationError m k)"
      and "\<forall>y c m k. request d y c \<noteq> Inl (ValidationError m k)"
  shows "(m = messages_unknownProvider
            \<and> (k = x \<or> (\<exists>pageUrl body. fst (fetchPageHtml d x) = Inr (pageUrl, body)
                          \<and> cheerio_href d body = Inr (Some k)
                          \<and> guard_rejects d k (request_config json_options))))
         \<or> (m = messages_insufficientMetadata \<and> k = x)"
proof (cases "type \<noteq> JStr ''bookmark'' \<and> snd (findUrlWithProvider (hasProvider d) x)")
  case True
  with assms(1) show ?thesis
    by (auto simp: match_or_fetch_def knownProvider_eq split: prod.splits sum.splits)
next
  case False
  then have "fst (async_try_catch (match_or_fetch d x type) (catch_block x)) =
      fst (async_try_catch (fetch_and_resolve d x type) (catch_block x))"
    by (auto simp: match_or_fetch_def split: prod.splits)
  with assms(1) fetch_and_resolve_ValidationError [OF _ assms(2), of x type m k]
  show ?thesis by simp
qed

section \<open>A site URL that does not parse\<close>

lemma misconfigured_guard:
  assumes "new_URL d (config_get_url d) = None"
  shows "isIpOrLocalhost d x"
  using assms by (simp add: isIpOrLocalhost_def)

lemma misconfigured_fetchPage:
  assumes "new_URL d (config_get_url d) = None"
  shows "fetchPage d x options =
         (Inl (ValidationError messages_unknownProvider x), [FetchPage x options])"
  using misconfigured_guard [OF assms]
  by (simp add: fetchPage_def externalRequest_def prod_eq_iff)

lemma misconfigured_fetch_and_resolve:
  assumes "new_URL d (config_get_url d) = None"
  shows "async_try_catch (fetch_and_resolve d x type) (catch_block x) =
         (Inl (ValidationError messages_unknownProvider x), [FetchPage x html_options])"
  by (simp add: fetch_and_resolve_def fetchPageHtml_def misconfigured_fetchPage [OF assms]
      catch_block_def prod_eq_iff)

section \<open>Every request of a resolution is guarded\<close>

lemma guarded_externalRequest: "list_all (guarded_event d) (snd (externalRequest d u c))"
  by (cases "request d u c") (auto simp: externalRequest_def)

lemma guarded_fetchPage: "list_all (guarded_event d) (snd (fetchPage d u options))"
  by (simp add: fetchPage_def guarded_externalRequest)

lemma guarded_decode_body: "list_all (guarded_event d) (snd (decode_body d r))"
  using decode_body_cases [of d r] by auto

lemma guarded_fetchPageHtml: "list_all (guarded_event d) (snd (fetchPageHtml d u))"
  by (auto simp: fetchPageHtml_def guarded_fetchPage guarded_decode_body split: sum.splits)

lemma guarded_fetchPageJson: "list_all (guarded_event d) (snd (fetchPageJson d u))"
  by (auto simp: fetchPageJson_def guarded_fetchPage split: sum.splits)

lemma guarded_fetchBookmarkData: "list_all (guarded_event d) (snd (fetchBookmarkData d u h))"
  by (auto simp: fetchBookmarkData_def Let_def split: sum.splits)

lemma guarded_fetchOembedData: "list_all (guarded_event d) (snd (fetchOembedData d u h c))"
  by (auto simp: fetchOembedData_def guarded_fetchPageJson split: sum.splits option.splits)

lemma guarded_knownProvider: "list_all (guarded_event d) (snd (knownProvider d u))"
  by (simp add: knownProvider_eq)

lemma guarded_catch_block: "list_all (guarded_event d) (snd (catch_block u e))"
  by (simp add: catch_block_def)

lemma guarded_discover: "list_all (guarded_event d) (snd (discover_or_bookmark d u body type))"
  by (auto simp: discover_or_bookmark_def guarded_fetchOembedData guarded_fetchBookmarkData
      split: sum.splits)

lemma guarded_fetch_and_resolve: "list_all (guarded_event d) (snd (fetch_and_resolve d u type))"
  by (auto simp: fetch_and_resolve_def guarded_fetchPageHtml guarded_fetchBookmarkData
      guarded_knownProvider guarded_discover split: sum.splits prod.splits)

lemma guarded_match_or_fetch: "list_all (guarded_event d) (snd (match_or_fetch d u type))"
  by (auto simp: match_or_fetch_def guarded_knownProvider guarded_fetch_and_resolve
      split: prod.splits)

lemma guarded_loop:
  assumes "\<forall>p \<in> set ps. guarded_provider d p"
  shows "list_all (guarded_event d) (snd (customProviders_loop d ps urlObject))"
  using assms
  by (induction ps) (auto simp: guarded_provider_def split: sum.splits)

lemma guarded_resolution:
  assumes "\<forall>p \<in> set (customProviders d). guarded_provider d p"
  shows "list_all (guarded_event d) (snd (fetchOembedDataFromUrl d u type))"
  using guarded_loop [OF assms]
  by (auto simp: fetchOembedDataFromUrl_def try_block_def guarded_catch_block
      guarded_match_or_fetch split: option.splits sum.splits)

section \<open>Guard rejections\<close>

lemma insufficient_metadata:
  assumes "metascraper d html x = Inr scraperResponse"
      and "distinct (map fst scraperResponse)"
      and "\<not> truthy (get_prop scraperResponse ''title'')"
  shows "fetchBookmarkData d x html =
         (Inl (ValidationError messages_insufficientMetadata x), [FetchBookmarkData x html])"
  using assms get_prop_bookmark_metadata_other [OF assms(2), of "''title''"]
  by (simp add: fetchBookmarkData_def prod_eq_iff)

lemma guard_rejects_externalRequest:
  assumes "guard_rejects d x c"
  shows "fst (externalRequest d x c) = Inl (ValidationError messages_unknownProvider x)"
  using assms
  by (cases "request d x c") (auto simp: guard_rejects_def externalRequest_def)

lemma guard_rejects_page:
  assumes "guard_rejects d x (request_config html_options)"
  shows "fst (async_try_catch (fetch_and_resolve d x type) (catch_block x)) =
         Inl (ValidationError messages_unknownProvider x)"
  using guard_rejects_externalRequest [OF assms]
  by (simp add: fetch_and_resolve_def fetchPageHtml_def fetchPage_eq catch_block_def)

lemma guard_rejects_endpoint:
  assumes "cheerio_href d body = Inr (Some h)"
      and "h \<noteq> []" and "\<not> test_anywhere WP_OEMBED_REGEX h"
      and "guard_rejects d h (request_config json_options)"
  shows "fst (async_try_catch (discover_or_bookmark d x body type) (catch_block x)) =
         Inl (ValidationError messages_unknownProvider h)"
  using assms(1-3) guard_rejects_externalRequest [OF assms(4)]
  by (simp add: discover_or_bookmark_def fetchOembedData_def fetchPageJson_def fetchPage_eq
      catch_block_def)

section \<open>Facts about the example deployment\<close>

lemma example_fields:
  "config_get_url example = ''http://blog.example/''"
  "new_URL example = example_new_URL"
  "request example = example_request"
  "hasProvider example = (\<lambda>u. u = ''https://www.video.example/watch'')"
  "oembed_extract example = (\<lambda>u. Inl (Thrown ''Request failed with error code 401''))"
  "cheerio_href example = example_cheerio_href"
  "metascraper example = example_metascraper"
  "charset example = (\<lambda>headers body. Inr None)"
  "customProviders example = []"
  by (simp_all add: example_def)

lemma example_guard:
  "isIpOrLocalhost example ''http://127.0.0.1/admin''"
  "isIpOrLocalhost example ''http://localhost:2368/''"
  "isIpOrLocalhost example ''http://[::1]/''"
  "isIpOrLocalhost example ''ftp://files.example/''"
  "isIpOrLocalhost example ''not a url''"
  "\<not> isIpOrLocalhost example ''http://blog.example/''"
  "\<not> isIpOrLocalhost example ''https://page.example/post''"
  "\<not> isIpOrLocalhost example ''https://page.example/photo''"
  "\<not> isIpOrLocalhost example ''https://page.example/internal''"
  "\<not> isIpOrLocalhost example ''https://page.example/untitled''"
  "\<not> isIpOrLocalhost example ''https://page.example/oembed.json''"
  "\<not> isIpOrLocalhost example ''https://short.example/x''"
  "\<not> isIpOrLocalhost example ''https://moved.example/''"
  "\<not> isIpOrLocalhost example ''https://video.example/watch''"
  by (simp_all add: isIpOrLocalhost_def example_fields example_new_URL_def mkURL_def regex_simps)

lemma example_no_providers:
  "customProviders_loop example (customProviders example) urlObject = (Inr None, [])"
  by (simp add: example_fields resolve_def)

lemma example_fetchPageHtml:
  "fetchPageHtml example ''https://page.example/post'' =
     (Inr (''https://page.example/post'', ''<html>post</html>''),
      [FetchPage ''https://page.example/post'' html_options,
       Request ''https://page.example/post'' (request_config html_options)])"
  "fetchPageHtml example ''https://page.example/photo'' =
     (Inr (''https://page.example/photo'', ''<html>photo</html>''),
      [FetchPage ''https://page.example/photo'' html_options,
       Request ''https://page.example/photo'' (request_config html_options)])"
  "fetchPageHtml example ''https://page.example/internal'' =
     (Inr (''https://page.example/internal'', ''<html>internal</html>''),
      [FetchPage ''https://page.example/internal'' html_options,
       Request ''https://page.example/internal'' (request_config html_options)])"
  "fetchPageHtml example ''https://page.example/untitled'' =
     (Inr (''https://page.example/untitled'', ''<html>untitled</html>''),
      [FetchPage ''https://page.example/untitled'' html_options,
       Request ''https://page.example/untitled'' (request_config html_options)])"
  "fetchPageHtml example ''https://short.example/x'' =
     (Inr (''https://page.example/post'', ''<html>post</html>''),
      [FetchPage ''https://short.example/x'' html_options,
       Request ''https://short.example/x'' (request_config html_options)])"
  by (simp_all add: fetchPageHtml_def fetchPage_def externalRequest_def decode_body_def
      example_guard prod_eq_iff Let_def example_fields example_request_def page_response_def)

lemma example_trim:
  "trim ''https://page.example/post'' = ''https://page.example/post''"
  "trim ''https://page.example/photo'' = ''https://page.example/photo''"
  "trim ''https://page.example/internal'' = ''https://page.example/internal''"
  "trim ''https://page.example/untitled'' = ''https://page.example/untitled''"
  "trim ''https://short.example/x'' = ''https://short.example/x''"
  "trim ''https://video.example/watch'' = ''https://video.example/watch''"
  by (simp_all add: trim_def is_space_def is_white_space_def)

lemma example_parsed:
  "new_URL example ''https://page.example/post'' = Some (mkURL ''https:'' ''page.example'' ''page.example'')"
  "new_URL example ''https://page.example/photo'' = Some (mkURL ''https:'' ''page.example'' ''page.example'')"
  "new_URL example ''https://page.example/internal'' = Some (mkURL ''https:'' ''page.example'' ''page.example'')"
  "new_URL example ''https://page.example/untitled'' = Some (mkURL ''https:'' ''page.example'' ''page.example'')"
  "new_URL example ''https://short.example/x'' = Some (mkURL ''https:'' ''short.example'' ''short.example'')"
  "new_URL example ''https://video.example/watch'' = Some (mkURL ''https:'' ''video.example'' ''video.example'')"
  by (simp_all add: example_fields example_new_URL_def)

lemma example_fetchBookmarkData:
  "h \<noteq> ''<html>untitled</html>'' \<Longrightarrow>
   fetchBookmarkData example u h = (Inr (example_bookmark u), [FetchBookmarkData u h])"
  "fetchBookmarkData example u ''<html>untitled</html>'' =
     (Inl (ValidationError messages_insufficientMetadata u),
      [FetchBookmarkData u ''<html>untitled</html>''])"
  by (simp_all add: fetchBookmarkData_def bookmark_metadata_def assign_def set_prop_def
      delete_prop_def get_prop_def example_fields example_metascraper_def example_bookmark_def
      prod_eq_iff)

lemma example_no_match:
  "\<not> snd (findUrlWithProvider (hasProvider example) ''https://page.example/post'')"
  "\<not> snd (findUrlWithProvider (hasProvider example) ''https://page.example/photo'')"
  "\<not> snd (findUrlWithProvider (hasProvider example) ''https://page.example/internal'')"
  "\<not> snd (findUrlWithProvider (hasProvider example) ''https://page.example/untitled'')"
  "\<not> snd (findUrlWithProvider (hasProvider example) ''https://short.example/x'')"
  by (simp_all add: findUrlWithProvider_def replace_start_def SCHEME_WWW_REGEX_def
      example_fields)

lemma example_fetchPageJson:
  "fetchPageJson example ''https://page.example/oembed.json'' =
     (Inr (''https://page.example/oembed.json'',
           JObj [(''type'', JStr ''photo''), (''version'', JStr ''1.0'')]),
      [FetchPage ''https://page.example/oembed.json'' json_options,
       Request ''https://page.example/oembed.json'' (request_config json_options)])"
  "fetchPageJson example ''http://127.0.0.1/admin'' =
     (Inl (ValidationError messages_unknownProvider ''http://127.0.0.1/admin''),
      [FetchPage ''http://127.0.0.1/admin'' json_options])"
  by (simp_all add: fetchPageJson_def fetchPage_def externalRequest_def
      example_guard prod_eq_iff example_fields example_request_def page_response_def)

lemma example_wp:
  "\<not> test_anywhere WP_OEMBED_REGEX ''https://page.example/oembed.json''"
  "\<not> test_anywhere WP_OEMBED_REGEX ''http://127.0.0.1/admin''"
  by code_simp+

lemma example_fetchOembedData:
  "fetchOembedData example u ''<html>photo</html>'' JUndefined =
     (Inr JUndefined,
      [FetchOembedData u ''<html>photo</html>'' JUndefined,
       FetchPage ''https://page.example/oembed.json'' json_options,
       Request ''https://page.example/oembed.json'' (request_config json_options)])"
  "fetchOembedData example u ''<html>internal</html>'' JUndefined =
     (Inl (ValidationError messages_unknownProvider ''http://127.0.0.1/admin''),
      [FetchOembedData u ''<html>internal</html>'' JUndefined,
       FetchPage ''http://127.0.0.1/admin'' json_options])"
  "fetchOembedData example u ''<html>untitled</html>'' JUndefined =
     (Inr JUndefined, [FetchOembedData u ''<html>untitled</html>'' JUndefined])"
  "fetchOembedData example u ''<html>post</html>'' JUndefined =
     (Inr JUndefined, [FetchOembedData u ''<html>post</html>'' JUndefined])"
  by (simp_all add: fetchOembedData_def example_fields example_cheerio_href_def
      example_fetchPageJson example_wp validate_oembed_def get_prop_def knownFields_def
      prod_eq_iff del: test_anywhere.simps)

lemma misconfigured_fields:
  "config_get_url misconfigured = ''blog.example''"
  "new_URL misconfigured = example_new_URL"
  "hasProvider misconfigured = (\<lambda>u. u = ''https://www.video.example/watch'')"
  "customProviders misconfigured = []"
  by (simp_all add: misconfigured_def example_def)

lemma example_request_errors:
  "request example y c \<noteq> Inl (ValidationError m k)"
  by (simp add: example_fields example_request_def)

lemma example_guard_rejects:
  "guard_rejects example ''http://127.0.0.1/admin'' c"
  by (simp add: guard_rejects_def example_guard)

section \<open>Patterns\<close>

lemma rmatch_lits: "rmatch (lits w) s = (case strip w s of Some r \<Rightarrow> [r] | None \<Rightarrow> [])"
proof (induction w arbitrary: s)
  case Nil
  then show ?case by simp
next
  case (Cons c w)
  then show ?case by (cases s) simp_all
qed

lemma rmatch_Lit: "rmatch (Lit c) s = (case strip [c] s of Some r \<Rightarrow> [r] | None \<Rightarrow> [])"
  by (cases s) simp_all

lemma strip_append:
  "strip (v @ w) s = (case strip v s of Some r \<Rightarrow> strip w r | None \<Rightarrow> None)"
proof (induction v arbitrary: s)
  case Nil
  then show ?case by simp
next
  case (Cons c v)
  then show ?case by (cases s) simp_all
qed

lemma strip_http:
  "strip ''http://'' u = (case strip ''http'' u of Some r \<Rightarrow> strip ''://'' r | None \<Rightarrow> None)"
  using strip_append [of "''http''" "''://''" u] by simp

lemma strip_https:
  "strip ''https://'' u =
     (case strip ''http'' u of
        Some r \<Rightarrow> (case strip ''s'' r of Some t \<Rightarrow> strip ''://'' t | None \<Rightarrow> None)
      | None \<Rightarrow> None)"
  using strip_append [of "''http''" "''s://''" u] strip_append [of "''s''" "''://''"]
  by (simp split: option.splits)

lemma strip_first:
  assumes "strip (c # v) s = Some a" and "strip (e # w) s = Some b"
  shows "c = e"
  using assms by (cases s) (auto split: if_splits)

lemma replace_start_scheme: "replace_start SCHEME_WWW_REGEX u = baseUrl_of u"
proof (cases "strip ''//'' u")
  case (Some r)
  then show ?thesis
    unfolding replace_start_def SCHEME_WWW_REGEX_def baseUrl_of_def
    by (simp add: rmatch_lits del: strip.simps lits.simps rmatch.simps(2))
next
  case slashes: None
  show ?thesis
  proof (cases "strip ''http'' u")
    case None
    with slashes show ?thesis
      unfolding replace_start_def SCHEME_WWW_REGEX_def baseUrl_of_def strip_http strip_https
      by (simp add: rmatch_lits del: strip.simps lits.simps rmatch.simps(2))
  next
    case (Some r)
    show ?thesis
    proof (cases "strip ''://'' r")
      case plain: (Some t)
      then have "strip ''s'' r = None"
        using strip_first [of "CHR ''s''" "[]" r _ "CHR '':''" "''//''" t]
        by (cases "strip ''s'' r") auto
      with slashes Some plain show ?thesis
        unfolding replace_start_def SCHEME_WWW_REGEX_def baseUrl_of_def strip_http strip_https
        by (simp add: rmatch_lits rmatch_Lit strip_www_def del: strip.simps lits.simps rmatch.simps(2)
            split: option.splits)
    next
      case None
      with slashes Some show ?thesis
        unfolding replace_start_def SCHEME_WWW_REGEX_def baseUrl_of_def strip_http strip_https
        by (simp add: rmatch_lits rmatch_Lit strip_www_def del: strip.simps lits.simps rmatch.simps(2)
            split: option.splits)
    qed
  qed
qed

lemma testUrls_loop_find:
  "testUrls_loop directory vs u False = first_known directory vs u"
  by (induction vs) (simp_all add: first_known_def)

lemma test_anywhere_colon: "test_anywhere IPV6_REGEX h \<longleftrightarrow> CHR '':'' \<in> set h"
  by (induction h) (auto simp: IPV6_REGEX_def)

lemma of_char_lower_ge: "65 \<le> (of_char c :: nat) \<Longrightarrow> of_char c \<le> (90 :: nat) \<Longrightarrow>
    (of_char (lower c) :: nat) = of_char c + 32"
  by (simp add: lower_def Let_def)

lemma lower_eq_colon: "lower c = CHR '':'' \<longleftrightarrow> c = CHR '':''"
proof
  assume l: "lower c = CHR '':''"
  show "c = CHR '':''"
  proof (cases "65 \<le> (of_char c :: nat) \<and> of_char c \<le> (90 :: nat)")
    case True
    then have "(of_char (lower c) :: nat) = of_char c + 32"
      by (simp add: of_char_lower_ge)
    with l True show ?thesis by simp
  next
    case False
    with l show ?thesis by (auto simp: lower_def Let_def)
  qed
next
  assume "c = CHR '':''"
  then show "lower c = CHR '':''" by (simp add: lower_def)
qed

lemma lower_letters [simp]:
  "lower CHR ''h'' = CHR ''h''" "lower CHR ''t'' = CHR ''t''"
  "lower CHR ''p'' = CHR ''p''" "lower CHR ''s'' = CHR ''s''"
  by (simp_all add: lower_def)

lemma lower_colon [simp]: "lower CHR '':'' = CHR '':''"
  by (simp add: lower_def)

lemma test_start_LitI:
  "test_start (Seq (LitI c) r) s =
     (case s of [] \<Rightarrow> False | x # t \<Rightarrow> lower x = lower c \<and> test_start r t)"
  by (cases s) (simp_all add: test_start_def)

lemma test_start_tail:
  "test_start (Seq (Opt (LitI CHR ''s'')) (Lit CHR '':'')) s =
     (starts_with_ci '':'' s \<or> starts_with_ci ''s:'' s)"
  by (cases s; cases "tl s") (auto simp: test_start_def lower_eq_colon)

lemma test_start_http: "test_start HTTP_REGEX p \<longleftrightarrow> http_protocol p"
  unfolding HTTP_REGEX_def http_protocol_def
  by (auto simp: test_start_LitI test_start_tail split: list.splits)

lemma rmatch_lang: "set (rmatch r s) = {t. \<exists>w \<in> lang r. s = w @ t}"
proof (induction r arbitrary: s)
  case Epsilon
  then show ?case by auto
next
  case (Lit c)
  then show ?case by (cases s) auto
next
  case (LitI c)
  then show ?case by (cases s) auto
next
  case (Cls a b)
  then show ?case by (cases s) auto
next
  case (Seq p q)
  show ?case
  proof (intro set_eqI iffI)
    fix t assume "t \<in> set (rmatch (Seq p q) s)"
    then obtain m where "m \<in> set (rmatch p s)" and "t \<in> set (rmatch q m)" by auto
    then obtain v w where "v \<in> lang p" "s = v @ m" "w \<in> lang q" "m = w @ t"
      using Seq.IH by auto
    then have "v @ w \<in> lang (Seq p q)" and "s = (v @ w) @ t" by auto
    then show "t \<in> {t. \<exists>w \<in> lang (Seq p q). s = w @ t}" by blast
  next
    fix t assume "t \<in> {t. \<exists>w \<in> lang (Seq p q). s = w @ t}"
    then obtain v w where "v \<in> lang p" "w \<in> lang q" "s = v @ w @ t" by auto
    then have "w @ t \<in> set (rmatch p s)" and "t \<in> set (rmatch q (w @ t))"
      using Seq.IH by auto
    then show "t \<in> set (rmatch (Seq p q) s)" by auto
  qed
next
  case (Alt p q)
  then show ?case by auto
next
  case (Opt p)
  then show ?case by auto
qed

lemma test_whole_lang: "test_whole r s \<longleftrightarrow> s \<in> lang r"
  by (simp add: test_whole_def rmatch_lang)

lemma char_eq_code:
  "c = CHR ''2'' \<longleftrightarrow> (of_char c :: nat) = 50"
  "c = CHR ''5'' \<longleftrightarrow> (of_char c :: nat) = 53"
  by (auto simp: of_char_eq_iff [where 'a = nat, symmetric])

lemma octet_0: "\<not> test_whole IPV4_OCTET []"
  by (simp add: test_whole_def IPV4_OCTET_def)

lemma octet_1: "test_whole IPV4_OCTET [a] \<longleftrightarrow> is_digit a"
  by (simp add: test_whole_def IPV4_OCTET_def is_digit_def)

lemma octet_2: "test_whole IPV4_OCTET [a, b] \<longleftrightarrow> is_digit a \<and> is_digit b"
  by (auto simp: test_whole_def IPV4_OCTET_def is_digit_def in_range_def)

lemma octet_3:
  "test_whole IPV4_OCTET [a, b, c] \<longleftrightarrow>
     is_digit a \<and> is_digit b \<and> is_digit c
     \<and> ((of_char a :: nat) \<le> 49
         \<or> ((of_char a :: nat) = 50
             \<and> ((of_char b :: nat) \<le> 52
                 \<or> ((of_char b :: nat) = 53 \<and> (of_char c :: nat) \<le> 53))))"
  by (auto simp: test_whole_def IPV4_OCTET_def is_digit_def in_range_def char_eq_code)

lemma octet_4: "\<not> test_whole IPV4_OCTET (a # b # c # e # t)"
  by (simp add: test_whole_def IPV4_OCTET_def)

lemma is_octet_1: "is_octet [a] \<longleftrightarrow> is_digit a"
  by (auto simp: is_octet_def decimal_value_def digit_value_def is_digit_def in_range_def)

lemma is_octet_2: "is_octet [a, b] \<longleftrightarrow> is_digit a \<and> is_digit b"
  by (auto simp: is_octet_def decimal_value_def digit_value_def is_digit_def in_range_def)

lemma octet_bound:
  fixes x y z :: nat
  assumes "x \<le> 9" "y \<le> 9" "z \<le> 9"
  shows "(10 * (10 * x + y) + z \<le> 255) = (x \<le> 1 \<or> (x = 2 \<and> (y \<le> 4 \<or> (y = 5 \<and> z \<le> 5))))"
proof -
  consider "x \<le> 1" | "x = 2" "y \<le> 4" | "x = 2" "y = 5" | "x = 2" "6 \<le> y" | "3 \<le> x"
    by linarith
  then show ?thesis
  proof cases
    case 1
    with assms show ?thesis by auto
  next
    case 2
    with assms show ?thesis by auto
  next
    case 3
    with assms show ?thesis by auto
  next
    case 4
    with assms show ?thesis by auto
  next
    case 5
    with assms show ?thesis by auto
  qed
qed

lemma is_digit_value: "is_digit c \<Longrightarrow> digit_value c \<le> 9 \<and> (of_char c :: nat) = digit_value c + 48"
  by (auto simp: is_digit_def in_range_def digit_value_def)

lemma is_octet_3:
  "is_octet [a, b, c] \<longleftrightarrow>
     is_digit a \<and> is_digit b \<and> is_digit c
     \<and> ((of_char a :: nat) \<le> 49
         \<or> ((of_char a :: nat) = 50
             \<and> ((of_char b :: nat) \<le> 52
                 \<or> ((of_char b :: nat) = 53 \<and> (of_char c :: nat) \<le> 53))))"
proof (cases "is_digit a \<and> is_digit b \<and> is_digit c")
  case False
  then show ?thesis by (auto simp: is_octet_def)
next
  case True
  then have v: "digit_value a \<le> 9" "digit_value b \<le> 9" "digit_value c \<le> 9"
    and o: "(of_char a :: nat) = digit_value a + 48" "(of_char b :: nat) = digit_value b + 48"
      "(of_char c :: nat) = digit_value c + 48"
    using is_digit_value by blast+
  have "is_octet [a, b, c] \<longleftrightarrow>
      10 * (10 * digit_value a + digit_value b) + digit_value c \<le> 255"
    using True by (simp add: is_octet_def decimal_value_def)
  also have "\<dots> \<longleftrightarrow> (digit_value a \<le> 1
      \<or> (digit_value a = 2 \<and> (digit_value b \<le> 4 \<or> (digit_value b = 5 \<and> digit_value c \<le> 5))))"
    by (rule octet_bound [OF v])
  finally show ?thesis using True by (simp add: o)
qed

lemma octet_iff: "test_whole IPV4_OCTET w \<longleftrightarrow> is_octet w"
proof (cases w)
  case Nil
  then show ?thesis by (simp add: octet_0 is_octet_def)
next
  case (Cons a w1)
  show ?thesis
  proof (cases w1)
    case Nil
    with Cons show ?thesis by (simp add: octet_1 is_octet_1)
  next
    case (Cons b w2)
    show ?thesis
    proof (cases w2)
      case Nil
      with \<open>w = a # w1\<close> \<open>w1 = b # w2\<close> show ?thesis by (simp add: octet_2 is_octet_2)
    next
      case (Cons c w3)
      show ?thesis
      proof (cases w3)
        case Nil
        with \<open>w = a # w1\<close> \<open>w1 = b # w2\<close> \<open>w2 = c # w3\<close> show ?thesis
          by (simp only: octet_3 is_octet_3)
      next
        case (Cons e t)
        with \<open>w = a # w1\<close> \<open>w1 = b # w2\<close> \<open>w2 = c # w3\<close> show ?thesis
          by (simp add: octet_4 is_octet_def)
      qed
    qed
  qed
qed

lemma is_octet_no_dot: "is_octet w \<Longrightarrow> CHR ''.'' \<notin> set w"
  by (auto simp: is_octet_def list_all_iff is_digit_def in_range_def)

lemma fields_not_Nil [simp]: "fields sep s \<noteq> []"
  by (induction s) (auto split: list.splits)

lemma fields_no_sep: "sep \<notin> set a \<Longrightarrow> fields sep a = [a]"
  by (induction a) auto

lemma fields_append: "sep \<notin> set a \<Longrightarrow> fields sep (a @ sep # r) = a # fields sep r"
  by (induction a) (auto split: list.splits)

lemma fields_single: "fields sep s = [f] \<Longrightarrow> s = f"
  by (induction s arbitrary: f) (auto split: if_splits list.splits)

lemma fields_more:
  "fields sep s = f # g # gs \<Longrightarrow> \<exists>r. s = f @ sep # r \<and> fields sep r = g # gs"
proof (induction s arbitrary: f)
  case Nil
  then show ?case by simp
next
  case (Cons c s)
  show ?case
  proof (cases "c = sep")
    case True
    with Cons.prems show ?thesis by auto
  next
    case False
    with Cons.prems obtain f' where f: "f = c # f'" and "fields sep s = f' # g # gs"
      by (auto split: list.splits)
    with Cons.IH obtain r where "s = f' @ sep # r" "fields sep r = g # gs" by blast
    with f show ?thesis by auto
  qed
qed

lemma fields_four:
  "fields sep s = [a, b, c, e] \<Longrightarrow> s = a @ sep # b @ sep # c @ sep # e"
  by (auto dest!: fields_more fields_single)

lemma test_whole_Seq:
  "test_whole (Seq p q) s \<longleftrightarrow> (\<exists>v w. s = v @ w \<and> test_whole p v \<and> test_whole q w)"
  by (auto simp: test_whole_lang)

lemma test_whole_dot: "test_whole (Lit CHR ''.'') w \<longleftrightarrow> w = ''.''"
  by (auto simp: test_whole_lang)

lemma octet_dot_seq:
  "test_whole (Seq (Seq IPV4_OCTET (Lit CHR ''.'')) r) s \<longleftrightarrow>
     (\<exists>a w. s = a @ CHR ''.'' # w \<and> is_octet a \<and> test_whole r w)"
proof
  assume "test_whole (Seq (Seq IPV4_OCTET (Lit CHR ''.'')) r) s"
  then obtain v w a where "s = v @ w" "v = a @ ''.''" "is_octet a" "test_whole r w"
    by (auto simp: test_whole_Seq test_whole_dot octet_iff)
  then have "s = a @ CHR ''.'' # w \<and> is_octet a \<and> test_whole r w" by simp
  then show "\<exists>a w. s = a @ CHR ''.'' # w \<and> is_octet a \<and> test_whole r w" by blast
next
  assume "\<exists>a w. s = a @ CHR ''.'' # w \<and> is_octet a \<and> test_whole r w"
  then obtain a w where "s = (a @ ''.'') @ w" "is_octet a" "test_whole r w" by auto
  then show "test_whole (Seq (Seq IPV4_OCTET (Lit CHR ''.'')) r) s"
    unfolding test_whole_Seq [of "Seq IPV4_OCTET (Lit CHR ''.'')"] test_whole_Seq [of IPV4_OCTET]
      test_whole_dot octet_iff
    by blast
qed

lemma ipv4_shape:
  "test_whole IPV4_REGEX h \<longleftrightarrow>
     (\<exists>a b c e. h = a @ CHR ''.'' # b @ CHR ''.'' # c @ CHR ''.'' # e
        \<and> is_octet a \<and> is_octet b \<and> is_octet c \<and> is_octet e)"
  unfolding IPV4_REGEX_def octet_dot_seq octet_iff
  by blast

lemma test_whole_ipv4: "test_whole IPV4_REGEX h \<longleftrightarrow> dotted_quad h"
proof
  assume "test_whole IPV4_REGEX h"
  then obtain a b c e where h: "h = a @ CHR ''.'' # b @ CHR ''.'' # c @ CHR ''.'' # e"
    and o: "is_octet a" "is_octet b" "is_octet c" "is_octet e"
    unfolding ipv4_shape by blast
  from o have "fields CHR ''.'' h = [a, b, c, e]"
    unfolding h by (simp add: fields_append fields_no_sep is_octet_no_dot)
  with o show "dotted_quad h" by (simp add: dotted_quad_def)
next
  assume "dotted_quad h"
  then obtain a b c e where f: "fields CHR ''.'' h = [a, b, c, e]"
    and o: "is_octet a" "is_octet b" "is_octet c" "is_octet e"
    by (auto simp: dotted_quad_def split: list.splits)
  from fields_four [OF f] o show "test_whole IPV4_REGEX h"
    unfolding ipv4_shape by blast
qed

lemma starts_with_ci_scheme:
  assumes "CHR '':'' \<notin> set s" and "CHR '':'' \<notin> set w"
  shows "starts_with_ci (w @ '':'') (s @ '':'') \<longleftrightarrow> map lower s = map lower w"
  using assms
proof (induction w arbitrary: s)
  case Nil
  then show ?case by (cases s) (auto simp: lower_eq_colon)
next
  case (Cons c w)
  show ?case
  proof (cases s)
    case Nil
    with Cons.prems show ?thesis
      using lower_eq_colon [of c] by auto
  next
    case (Cons x t)
    with Cons.prems Cons.IH [of t] show ?thesis by auto
  qed
qed

lemma http_protocol_scheme:
  assumes "CHR '':'' \<notin> set s"
  shows "http_protocol (s @ '':'') \<longleftrightarrow> map lower s = ''http'' \<or> map lower s = ''https''"
  using starts_with_ci_scheme [OF assms, of "''http''"]
    starts_with_ci_scheme [OF assms, of "''https''"]
  by (simp add: http_protocol_def)

lemma local_blog_fields:
  "config_get_url local_blog = ''http://localhost:2368/''"
  "new_URL local_blog = example_new_URL"
  by (simp_all add: local_blog_def example_def)


lemma example_with_providers_fields:
  "new_URL example_with_providers = example_new_URL"
  "config_get_url example_with_providers = ''http://blog.example/''"
  "request example_with_providers = example_request"
  "customProviders example_with_providers = [asking_provider, fixed_provider]"
  by (simp_all add: example_with_providers_def registerProvider_def example_def)

lemma example_with_providers_asked:
  "externalRequest example_with_providers ''https://page.example/oembed.json'' [] =
     (Inr (page_response ''https://page.example/oembed.json''
             (JObj [(''type'', JStr ''photo''), (''version'', JStr ''1.0'')])),
      [Request ''https://page.example/oembed.json'' []])"
proof -
  have "\<not> isIpOrLocalhost example_with_providers ''https://page.example/oembed.json''"
    by (simp add: isIpOrLocalhost_def example_with_providers_fields example_new_URL_def
        mkURL_def regex_simps)
  then show ?thesis
    by (simp add: externalRequest_def example_with_providers_fields example_request_def
        page_response_def prod_eq_iff)
qed

lemma example_with_providers_resolution:
  "fetchOembedDataFromUrl example_with_providers ''https://page.example/post'' JUndefined =
     (Inr link_embed, [Request ''https://page.example/oembed.json'' []])"
  by (simp add: fetchOembedDataFromUrl_def try_block_def example_with_providers_fields
      example_new_URL_def asking_provider_def fixed_provider_def mkURL_def link_embed_def
      example_with_providers_asked prod_eq_iff)

section \<open>Facts of the other deployments\<close>

lemma misconfigured_video_fields:
  "config_get_url misconfigured_video = ''blog.example''"
  "new_URL misconfigured_video = example_new_URL"
  "hasProvider misconfigured_video = (\<lambda>u. u = ''https://www.video.example/watch'')"
  "oembed_extract misconfigured_video = (\<lambda>u. Inr video_embed)"
  "customProviders misconfigured_video = []"
  by (simp_all add: misconfigured_video_def misconfigured_def example_def)

lemma misconfigured_with_providers_fields:
  "config_get_url misconfigured_with_providers = ''blog.example''"
  "new_URL misconfigured_with_providers = example_new_URL"
  "customProviders misconfigured_with_providers = [asking_provider, fixed_provider]"
  by (simp_all add: misconfigured_with_providers_def example_with_providers_def
      registerProvider_def example_def)

lemma misconfigured_more_fields:
  "oembed_extract misconfigured = (\<lambda>u. Inl (Thrown ''Request failed with error code 401''))"
  by (simp add: misconfigured_def example_def)

lemma known_video:
  "findUrlWithProvider (\<lambda>u. u = ''https://www.video.example/watch'') ''https://video.example/watch'' =
      (''https://www.video.example/watch'', True)"
  by (simp add: findUrlWithProvider_def replace_start_def SCHEME_WWW_REGEX_def)

lemma misconfigured_asking:
  "customProviders_loop misconfigured_with_providers (customProviders misconfigured_with_providers)
      (mkURL ''https:'' ''page.example'' ''page.example'') =
     (Inl (ValidationError messages_unknownProvider ''https://page.example/oembed.json''), [])"
proof -
  have site: "new_URL misconfigured_with_providers (config_get_url misconfigured_with_providers) = None"
    by (simp add: misconfigured_with_providers_fields example_new_URL_def)
  have "externalRequest misconfigured_with_providers ''https://page.example/oembed.json'' [] =
      (Inl (ValidationError messages_unknownProvider ''https://page.example/oembed.json''), [])"
    using misconfigured_guard [OF site]
    by (simp add: externalRequest_def prod_eq_iff)
  then show ?thesis
    by (simp add: misconfigured_with_providers_fields asking_provider_def prod_eq_iff)
qed

lemma padded_fields:
  "config_get_url padded = ''http://blog.example/''"
  "request padded = example_request"
  "metascraper padded = example_metascraper"
  "charset padded = (\<lambda>headers body. Inr None)"
  "customProviders padded = []"
  "new_URL padded padded_url = Some (mkURL ''https:'' ''short.example'' ''short.example'')"
  "new_URL padded ''https://short.example/x'' = Some (mkURL ''https:'' ''short.example'' ''short.example'')"
  "new_URL padded ''https://page.example/post'' = Some (mkURL ''https:'' ''page.example'' ''page.example'')"
  "new_URL padded ''http://blog.example/'' = Some (mkURL ''http:'' ''blog.example'' ''blog.example'')"
  by (simp_all add: padded_def padded_url_def example_def example_new_URL_def)

lemma padded_trim: "trim padded_url = ''https://short.example/x''"
  by (simp add: padded_url_def trim_def is_space_def is_white_space_def)

lemma padded_guard:
  "\<not> isIpOrLocalhost padded ''https://short.example/x''"
  "\<not> isIpOrLocalhost padded ''https://page.example/post''"
  by (simp_all add: isIpOrLocalhost_def padded_fields mkURL_def regex_simps)

lemma padded_fetchPageHtml:
  "fetchPageHtml padded ''https://short.example/x'' =
     (Inr (''https://page.example/post'', ''<html>post</html>''),
      [FetchPage ''https://short.example/x'' html_options,
       Request ''https://short.example/x'' (request_config html_options)])"
  by (simp add: fetchPageHtml_def fetchPage_def externalRequest_def padded_guard padded_fields
      example_request_def page_response_def decode_body_def prod_eq_iff Let_def)

lemma padded_fetchBookmarkData:
  "fetchBookmarkData padded u ''<html>post</html>'' =
     (Inr (example_bookmark u), [FetchBookmarkData u ''<html>post</html>''])"
  by (simp add: fetchBookmarkData_def bookmark_metadata_def assign_def set_prop_def
      delete_prop_def get_prop_def padded_fields example_metascraper_def example_bookmark_def
      prod_eq_iff)

lemma padded_no_providers:
  "customProviders_loop padded (customProviders padded) urlObject = (Inr None, [])"
  by (simp add: padded_fields resolve_def)

section \<open>C1: the guarded fetcher\<close>

text \<open>
  Claim C1 says that a call of the guarded fetcher \<open>externalRequest\<close> with a URL that
  \<open>isIpOrLocalhost\<close> judges unsafe issues no request and is rejected with the
  unknown-provider error, that a response whose final URL is judged unsafe is dropped
  with the same rejection, and concludes that no network byte is ever read without the
  guard having passed both the requested host and the final host. The conclusion fails
  in two ways. The final URL is known only from the response: on the example
  deployment the guard passes \<open>https://moved.example/\<close>, the request is issued, and
  the network primitive, following the redirect, has read the body of
  \<open>http://127.0.0.1/admin\<close>, which the guard judges unsafe. And \<open>extract\<close> of a
  known provider is called without the guard: with a site URL that does not parse the
  guard passes no URL at all, and the resolution of a known provider's URL still calls
  \<open>extract\<close>.
\<close>

theorem network_read_without_guard:
  "\<not> isIpOrLocalhost example ''https://moved.example/''
   \<and> request example ''https://moved.example/'' [] =
       Inr (page_response ''http://127.0.0.1/admin'' (JStr ''secret''))
   \<and> isIpOrLocalhost example ''http://127.0.0.1/admin''
   \<and> snd (externalRequest example ''https://moved.example/'' []) =
       [Request ''https://moved.example/'' []]
   \<and> isIpOrLocalhost misconfigured ''https://www.video.example/watch''
   \<and> fetchOembedDataFromUrl misconfigured ''https://video.example/watch'' JUndefined =
       (Inl (InternalServerError ''Request failed with error code 401'' None),
        [FindUrlWithProvider ''https://video.example/watch'',
         Extract ''https://www.video.example/watch''])"
proof -
  have resp: "request example ''https://moved.example/'' [] =
       Inr (page_response ''http://127.0.0.1/admin'' (JStr ''secret''))"
    by (simp add: example_fields example_request_def)
  have issued: "snd (externalRequest example ''https://moved.example/'' []) =
       [Request ''https://moved.example/'' []]"
    by (simp add: externalRequest_def example_guard resp page_response_def)
  have site: "new_URL misconfigured (config_get_url misconfigured) = None"
    by (simp add: misconfigured_fields example_new_URL_def)
  have parsed: "new_URL misconfigured ''https://video.example/watch''
      = Some (mkURL ''https:'' ''video.example'' ''video.example'')"
    by (simp add: misconfigured_fields example_new_URL_def)
  have loop: "customProviders_loop misconfigured (customProviders misconfigured)
      (mkURL ''https:'' ''video.example'' ''video.example'') = (Inr None, [])"
    by (simp add: misconfigured_fields resolve_def)
  have failed: "knownProvider misconfigured ''https://www.video.example/watch'' =
      (Inl (InternalServerError ''Request failed with error code 401'' None),
       [Extract ''https://www.video.example/watch''])"
    by (simp add: knownProvider_eq misconfigured_more_fields)
  have resolution: "fetchOembedDataFromUrl misconfigured ''https://video.example/watch'' JUndefined =
       (Inl (InternalServerError ''Request failed with error code 401'' None),
        [FindUrlWithProvider ''https://video.example/watch'',
         Extract ''https://www.video.example/watch''])"
    by (simp add: resolution_after_providers [OF parsed loop] example_trim match_or_fetch_def
        misconfigured_fields known_video failed)
  from example_guard(13) resp example_guard(1) issued misconfigured_guard [OF site] resolution
  show ?thesis by (intro conjI)
qed

text \<open>
  Claim C1, amended. A call of the guarded fetcher \<open>externalRequest\<close> with a URL that
  \<open>isIpOrLocalhost\<close> judges unsafe issues no request and is rejected with the
  unknown-provider error. When the request was issued and the final URL of its response
  is judged unsafe, the response is dropped and the call is rejected in the same way.
  So the fetcher hands a response to its caller only when the guard has passed the
  requested URL and the final URL, and the only request the fetcher issues through the
  network primitive is for a URL that the guard has passed. In a whole resolution whose
  custom providers issue requests only for URLs the guard passes, as they do when they
  use the fetcher they are handed, every request issued through the network primitive
  is for a URL that the guard has passed.
\<close>

theorem externalRequest_guarded:
  "(isIpOrLocalhost d u \<longrightarrow>
      externalRequest d u c = (Inl (ValidationError messages_unknownProvider u), []))
   \<and> (\<not> isIpOrLocalhost d u \<longrightarrow> request d u c = Inr r \<longrightarrow> isIpOrLocalhost d (resp_url r) \<longrightarrow>
      externalRequest d u c = (Inl (ValidationError messages_unknownProvider u), [Request u c]))
   \<and> (fst (externalRequest d u c) = Inr r \<longrightarrow>
      \<not> isIpOrLocalhost d u \<and> request d u c = Inr r \<and> \<not> isIpOrLocalhost d (resp_url r)
      \<and> snd (externalRequest d u c) = [Request u c])
   \<and> (Request u' c' \<in> set (snd (externalRequest d u c)) \<longrightarrow>
      u' = u \<and> c' = c \<and> \<not> isIpOrLocalhost d u)
   \<and> ((\<forall>p \<in> set (customProviders d). guarded_provider d p) \<longrightarrow>
      Request u' c' \<in> set (snd (fetchOembedDataFromUrl d requested type)) \<longrightarrow>
      \<not> isIpOrLocalhost d u')"
proof -
  have unsafe: "isIpOrLocalhost d u \<longrightarrow>
      externalRequest d u c = (Inl (ValidationError messages_unknownProvider u), [])"
    by (simp add: externalRequest_def prod_eq_iff)
  have final: "\<not> isIpOrLocalhost d u \<longrightarrow> request d u c = Inr r \<longrightarrow>
      isIpOrLocalhost d (resp_url r) \<longrightarrow>
      externalRequest d u c = (Inl (ValidationError messages_unknownProvider u), [Request u c])"
    by (simp add: externalRequest_def prod_eq_iff)
  have fulfilled: "fst (externalRequest d u c) = Inr r \<longrightarrow>
      \<not> isIpOrLocalhost d u \<and> request d u c = Inr r \<and> \<not> isIpOrLocalhost d (resp_url r)
      \<and> snd (externalRequest d u c) = [Request u c]"
    by (cases "request d u c") (auto simp: externalRequest_def)
  have issued: "Request u' c' \<in> set (snd (externalRequest d u c)) \<longrightarrow>
      u' = u \<and> c' = c \<and> \<not> isIpOrLocalhost d u"
    by (cases "request d u c") (auto simp: externalRequest_def)
  have resolution: "(\<forall>p \<in> set (customProviders d). guarded_provider d p) \<longrightarrow>
      Request u' c' \<in> set (snd (fetchOembedDataFromUrl d requested type)) \<longrightarrow>
      \<not> isIpOrLocalhost d u'"
  proof (intro impI)
    assume "\<forall>p \<in> set (customProviders d). guarded_provider d p"
    then have "list_all (guarded_event d) (snd (fetchOembedDataFromUrl d requested type))"
      by (rule guarded_resolution)
    moreover assume "Request u' c' \<in> set (snd (fetchOembedDataFromUrl d requested type))"
    ultimately have "guarded_event d (Request u' c')"
      unfolding list_all_iff by (rule bspec)
    then show "\<not> isIpOrLocalhost d u'" by simp
  qed
  from unsafe final fulfilled issued resolution show ?thesis
    by (intro conjI)
qed

theorem externalRequest_guarded_witness:
  "isIpOrLocalhost example ''http://127.0.0.1/admin''
   \<and> externalRequest example ''http://127.0.0.1/admin'' [] =
       (Inl (ValidationError messages_unknownProvider ''http://127.0.0.1/admin''), [])
   \<and> \<not> isIpOrLocalhost example ''https://moved.example/''
   \<and> request example ''https://moved.example/'' [] =
       Inr (page_response ''http://127.0.0.1/admin'' (JStr ''secret''))
   \<and> isIpOrLocalhost example (resp_url (page_response ''http://127.0.0.1/admin'' (JStr ''secret'')))
   \<and> externalRequest example ''https://moved.example/'' [] =
       (Inl (ValidationError messages_unknownProvider ''https://moved.example/''),
        [Request ''https://moved.example/'' []])
   \<and> guarded_provider example_with_providers asking_provider
   \<and> guarded_provider example_with_providers fixed_provider
   \<and> Request ''https://page.example/oembed.json'' []
       \<in> set (snd (fetchOembedDataFromUrl example_with_providers
                     ''https://page.example/post'' JUndefined))
   \<and> \<not> isIpOrLocalhost example_with_providers ''https://page.example/oembed.json''"
proof -
  have unsafe: "isIpOrLocalhost example ''http://127.0.0.1/admin''"
    by (simp add: isIpOrLocalhost_def example_simps regex_simps)
  have safe: "\<not> isIpOrLocalhost example ''https://moved.example/''"
    by (simp add: isIpOrLocalhost_def example_simps regex_simps)
  have resp: "request example ''https://moved.example/'' [] =
       Inr (page_response ''http://127.0.0.1/admin'' (JStr ''secret''))"
    by (simp add: example_def example_request_def)
  have final: "isIpOrLocalhost example
       (resp_url (page_response ''http://127.0.0.1/admin'' (JStr ''secret'')))"
    using unsafe by (simp add: page_response_def)
  have asking: "guarded_provider example_with_providers asking_provider"
    by (simp add: guarded_provider_def asking_provider_def guarded_externalRequest
        split: sum.splits)
  have fixed: "guarded_provider example_with_providers fixed_provider"
    by (simp add: guarded_provider_def fixed_provider_def)
  have providers: "\<forall>p \<in> set (customProviders example_with_providers).
      guarded_provider example_with_providers p"
    using asking fixed by (simp add: example_with_providers_def registerProvider_def example_def)
  have issued: "Request ''https://page.example/oembed.json'' []
       \<in> set (snd (fetchOembedDataFromUrl example_with_providers
                     ''https://page.example/post'' JUndefined))"
    by (simp add: example_with_providers_resolution)
  have rejected: "externalRequest example ''http://127.0.0.1/admin'' [] =
       (Inl (ValidationError messages_unknownProvider ''http://127.0.0.1/admin''), [])"
    by (rule externalRequest_guarded [THEN conjunct1, rule_format, OF unsafe])
  have dropped: "externalRequest example ''https://moved.example/'' [] =
       (Inl (ValidationError messages_unknownProvider ''https://moved.example/''),
        [Request ''https://moved.example/'' []])"
    by (rule externalRequest_guarded [THEN conjunct2, THEN conjunct1, rule_format,
          OF safe resp final])
  have passed: "\<not> isIpOrLocalhost example_with_providers ''https://page.example/oembed.json''"
    by (rule externalRequest_guarded [THEN conjunct2, THEN conjunct2, THEN conjunct2,
          THEN conjunct2, THEN mp, THEN mp, OF providers issued])
  from unsafe safe resp final rejected dropped asking fixed issued passed show ?thesis
    by (intro conjI)
qed

section \<open>C2: the verdict of the guard\<close>

text \<open>
  Claim C2 says that \<open>isIpOrLocalhost\<close> is true exactly when the URL fails to parse,
  its scheme is not http or https, its hostname is \<open>localhost\<close>, a dotted quad or
  contains a colon, except that it is false when the URL's host is the host of the
  configured site URL. The "exactly" fails when the site URL itself does not parse:
  the constructor throws inside \<open>try\<close> and the verdict is \<open>true\<close> for a URL that
  parses, has scheme https and an ordinary hostname.
\<close>

theorem unparseable_site_url_rejects_safe_url:
  "new_URL misconfigured ''https://page.example/post''
     = Some (mkURL ''https:'' ''page.example'' ''page.example'')
   \<and> http_protocol ''https:''
   \<and> ''page.example'' \<noteq> ''localhost''
   \<and> \<not> dotted_quad ''page.example''
   \<and> CHR '':'' \<notin> set ''page.example''
   \<and> isIpOrLocalhost misconfigured ''https://page.example/post''"
  by (simp add: isIpOrLocalhost_def misconfigured_fields example_new_URL_def http_protocol_def
      dotted_quad_def)

text \<open>
  Claim C2, amended. Provided the configured site URL parses, \<open>isIpOrLocalhost\<close> is
  true exactly when the URL fails to parse, or its host differs from the host of the
  site URL and its protocol is not an HTTP protocol, or its hostname is \<open>localhost\<close>,
  is a dotted quad, or contains a colon. In particular it is false whenever the URL's
  host equals the site's host, also for a \<open>localhost\<close> or dotted-quad hostname. For a
  protocol that is a scheme followed by one colon, as the \<open>URL\<close> constructor gives it,
  an HTTP protocol is one whose scheme is http or https (\<open>http_protocol_scheme\<close>).
\<close>

theorem isIpOrLocalhost_verdict:
  assumes "new_URL d (config_get_url d) = Some siteUrl"
  shows "isIpOrLocalhost d u \<longleftrightarrow>
           (case new_URL d u of
              None \<Rightarrow> True
            | Some parsed \<Rightarrow>
                host parsed \<noteq> host siteUrl
                \<and> (\<not> http_protocol (protocol parsed)
                    \<or> hostname parsed = ''localhost''
                    \<or> dotted_quad (hostname parsed)
                    \<or> CHR '':'' \<in> set (hostname parsed)))"
  using assms
  by (auto simp: isIpOrLocalhost_def test_start_http test_whole_ipv4 test_anywhere_colon
      split: option.splits)

theorem isIpOrLocalhost_verdict_witness:
  "new_URL example (config_get_url example)
     = Some (mkURL ''http:'' ''blog.example'' ''blog.example'')
   \<and> dotted_quad ''127.0.0.1''
   \<and> isIpOrLocalhost example ''http://127.0.0.1/admin''
   \<and> isIpOrLocalhost example ''http://[::1]/''
   \<and> isIpOrLocalhost example ''ftp://files.example/''
   \<and> isIpOrLocalhost example ''not a url''
   \<and> \<not> isIpOrLocalhost example ''https://page.example/post''
   \<and> new_URL local_blog (config_get_url local_blog)
       = Some (mkURL ''http:'' ''localhost'' ''localhost:2368'')
   \<and> \<not> isIpOrLocalhost local_blog ''http://localhost:2368/''"
proof -
  have site: "new_URL example (config_get_url example)
     = Some (mkURL ''http:'' ''blog.example'' ''blog.example'')"
    by (simp add: example_fields example_new_URL_def)
  have local: "new_URL local_blog (config_get_url local_blog)
       = Some (mkURL ''http:'' ''localhost'' ''localhost:2368'')"
    by (simp add: local_blog_fields example_new_URL_def)
  have quad: "dotted_quad ''127.0.0.1''"
    by (simp add: dotted_quad_def is_octet_def is_digit_def in_range_def decimal_value_def
        digit_value_def)
  have not_quad: "\<not> dotted_quad ''page.example''"
    by (simp add: dotted_quad_def)
  have http: "http_protocol ''http:''" "http_protocol ''https:''" "\<not> http_protocol ''ftp:''"
    by (simp_all add: http_protocol_def)
  note [simp] = example_fields local_blog_fields example_new_URL_def mkURL_def quad not_quad http
  show ?thesis
    using isIpOrLocalhost_verdict [OF site, of "''http://127.0.0.1/admin''"]
      isIpOrLocalhost_verdict [OF site, of "''http://[::1]/''"]
      isIpOrLocalhost_verdict [OF site, of "''ftp://files.example/''"]
      isIpOrLocalhost_verdict [OF site, of "''not a url''"]
      isIpOrLocalhost_verdict [OF site, of "''https://page.example/post''"]
      isIpOrLocalhost_verdict [OF local, of "''http://localhost:2368/''"]
    by simp
qed

section \<open>C3: custom providers come first\<close>

text \<open>
  Claim C3. For a URL that parses, let the registered providers be \<open>before @ p # after\<close>
  in registration order, where every provider in \<open>before\<close> declines (it does not accept
  the URL, or accepts it and returns \<open>null\<close>), \<open>p\<close> accepts the URL and
  \<open>getOEmbedData\<close> of \<open>p\<close> returns a result other than \<open>null\<close>. Then the resolution
  returns exactly that result, and the whole run consists of the calls made to the
  providers up to \<open>p\<close>, in registration order: no known-provider matcher, page fetch,
  oEmbed discovery or bookmark extraction of the resolver runs, and the providers after
  \<open>p\<close> are not asked. When every provider declines, the loop ends without a result
  and the resolution goes on with the stage after the loop.
\<close>

theorem custom_provider_short_circuits:
  assumes "new_URL d u = Some urlObject"
  shows "(customProviders d = before @ p # after
            \<and> (\<forall>q \<in> set before. declines d urlObject q)
            \<and> fst (canSupportRequest p urlObject) = Inr True
            \<and> fst (getOEmbedData p urlObject (externalRequest d)) = Inr result
            \<and> result \<noteq> JNull
          \<longrightarrow> fetchOembedDataFromUrl d u type =
                (Inr result, concat (map (provider_events d urlObject) (before @ [p]))))
       \<and> ((\<forall>q \<in> set (customProviders d). declines d urlObject q)
          \<longrightarrow> customProviders_loop d (customProviders d) urlObject =
                (Inr None, concat (map (provider_events d urlObject) (customProviders d)))
              \<and> fetchOembedDataFromUrl d u type =
                (fst (async_try_catch (match_or_fetch d (trim u) type) (catch_block (trim u))),
                 concat (map (provider_events d urlObject) (customProviders d))
                 @ snd (async_try_catch (match_or_fetch d (trim u) type) (catch_block (trim u)))))"
proof (intro conjI impI)
  assume h: "customProviders d = before @ p # after
            \<and> (\<forall>q \<in> set before. declines d urlObject q)
            \<and> fst (canSupportRequest p urlObject) = Inr True
            \<and> fst (getOEmbedData p urlObject (externalRequest d)) = Inr result
            \<and> result \<noteq> JNull"
  then have "customProviders_loop d (customProviders d) urlObject =
         (Inr (Some result), concat (map (provider_events d urlObject) (before @ [p])))"
    using loop_first_result [of before d urlObject p result after] by simp
  with assms show "fetchOembedDataFromUrl d u type =
          (Inr result, concat (map (provider_events d urlObject) (before @ [p])))"
    by (simp add: fetchOembedDataFromUrl_def try_block_def prod_eq_iff)
next
  assume "\<forall>q \<in> set (customProviders d). declines d urlObject q"
  then show loop: "customProviders_loop d (customProviders d) urlObject =
         (Inr None, concat (map (provider_events d urlObject) (customProviders d)))"
    by (rule loop_all_declined)
  show "fetchOembedDataFromUrl d u type =
          (fst (async_try_catch (match_or_fetch d (trim u) type) (catch_block (trim u))),
           concat (map (provider_events d urlObject) (customProviders d))
           @ snd (async_try_catch (match_or_fetch d (trim u) type) (catch_block (trim u))))"
    by (rule resolution_after_providers [OF assms loop])
qed

theorem custom_provider_short_circuits_witness:
  "new_URL example_with_providers ''https://page.example/post''
     = Some (mkURL ''https:'' ''page.example'' ''page.example'')
   \<and> customProviders example_with_providers = [asking_provider] @ fixed_provider # []
   \<and> declines example_with_providers (mkURL ''https:'' ''page.example'' ''page.example'')
         asking_provider
   \<and> fetchOembedDataFromUrl example_with_providers ''https://page.example/post'' JUndefined =
       (Inr link_embed, [Request ''https://page.example/oembed.json'' []])"
proof -
  let ?U = "mkURL ''https:'' ''page.example'' ''page.example''"
  have parsed: "new_URL example_with_providers ''https://page.example/post'' = Some ?U"
    by (simp add: example_simps)
  have registered: "customProviders example_with_providers = [asking_provider] @ fixed_provider # []"
    by (simp add: example_simps)
  have safe: "\<not> isIpOrLocalhost example_with_providers ''https://page.example/oembed.json''"
    by (simp add: isIpOrLocalhost_def example_simps regex_simps)
  have asked: "externalRequest example_with_providers ''https://page.example/oembed.json'' [] =
      (Inr (page_response ''https://page.example/oembed.json''
              (JObj [(''type'', JStr ''photo''), (''version'', JStr ''1.0'')])),
       [Request ''https://page.example/oembed.json'' []])"
    using safe by (simp add: externalRequest_def example_simps prod_eq_iff)
  have declined: "\<forall>q \<in> set [asking_provider]. declines example_with_providers ?U q"
    by (simp add: declines_def asking_provider_def asked)
  have accepts: "fst (canSupportRequest fixed_provider ?U) = Inr True"
    by (simp add: fixed_provider_def mkURL_def)
  have answer: "fst (getOEmbedData fixed_provider ?U (externalRequest example_with_providers))
      = Inr link_embed"
    by (simp add: fixed_provider_def)
  have not_null: "link_embed \<noteq> JNull"
    by (simp add: link_embed_def)
  have events: "concat (map (provider_events example_with_providers ?U)
      ([asking_provider] @ [fixed_provider])) = [Request ''https://page.example/oembed.json'' []]"
    by (simp add: provider_events_def asking_provider_def fixed_provider_def asked)
  from custom_provider_short_circuits [OF parsed, of "[asking_provider]" fixed_provider "[]"
      link_embed JUndefined] registered declined accepts answer not_null events
  have "fetchOembedDataFromUrl example_with_providers ''https://page.example/post'' JUndefined =
       (Inr link_embed, [Request ''https://page.example/oembed.json'' []])"
    by simp
  with parsed registered declined show ?thesis by simp
qed

section \<open>C4: an explicit bookmark request\<close>

text \<open>
  Claim C4 says that a resolution with card type \<open>bookmark\<close> in which no provider
  produces a result never invokes the known-provider matcher or oEmbed discovery, and
  that bookmark extraction runs on the fetched HTML with the originally requested URL
  rather than the final URL of the fetch. The URL that the extraction gets is the
  requested one after \<open>url.trim()\<close>: for a requested URL with spaces around it that the
  URL constructor accepts, the page is fetched and the bookmark is extracted for the
  trimmed string, which is not the string that was requested.
\<close>

theorem bookmark_extraction_gets_trimmed_url:
  "new_URL padded '' https://short.example/x  ''
     = Some (mkURL ''https:'' ''short.example'' ''short.example'')
   \<and> fetchOembedDataFromUrl padded '' https://short.example/x  '' (JStr ''bookmark'') =
       (Inr (example_bookmark ''https://short.example/x''),
        [FetchPage ''https://short.example/x'' html_options,
         Request ''https://short.example/x'' (request_config html_options),
         FetchBookmarkData ''https://short.example/x'' ''<html>post</html>''])
   \<and> ''https://short.example/x'' \<noteq> '' https://short.example/x  ''"
proof -
  have "fetchOembedDataFromUrl padded padded_url (JStr ''bookmark'') =
       (Inr (example_bookmark ''https://short.example/x''),
        [FetchPage ''https://short.example/x'' html_options,
         Request ''https://short.example/x'' (request_config html_options),
         FetchBookmarkData ''https://short.example/x'' ''<html>post</html>''])"
    by (simp add: resolution_after_providers [OF padded_fields(6) padded_no_providers]
        padded_trim bookmark_stage padded_fetchPageHtml padded_fetchBookmarkData)
  with padded_fields(6) show ?thesis
    by (simp add: padded_url_def)
qed

text \<open>
  Claim C4, amended. When the card type \<open>bookmark\<close> is requested and the provider loop
  ends without a result, everything the resolution does after the loop is free of the
  known-provider matcher (\<open>findUrlWithProvider\<close>) and of oEmbed discovery
  (\<open>fetchOembedData\<close>); any bookmark extraction in it is on the requested URL after
  \<open>url.trim()\<close> and on the HTML that the page fetch returned. When the page fetch
  succeeds, the resolution is exactly the bookmark extraction on the trimmed requested
  URL and the fetched body, whatever final URL the fetch reports. (Trimming leaves a
  URL without white space at its ends as it is, \<open>trim_id\<close>.)
\<close>

theorem bookmark_request_skips_matcher_and_discovery:
  assumes "new_URL d u = Some urlObject"
      and "customProviders_loop d (customProviders d) urlObject = (Inr None, evs)"
  shows "(\<exists>rest. snd (fetchOembedDataFromUrl d u (JStr ''bookmark'')) = evs @ rest
            \<and> (\<forall>ev \<in> set rest. \<not> matcher_or_discovery ev)
            \<and> (\<forall>x h. FetchBookmarkData x h \<in> set rest \<longrightarrow>
                  x = trim u \<and> (\<exists>pageUrl. fst (fetchPageHtml d (trim u)) = Inr (pageUrl, h))))
       \<and> (\<forall>pageUrl body. fst (fetchPageHtml d (trim u)) = Inr (pageUrl, body) \<longrightarrow>
             fetchOembedDataFromUrl d u (JStr ''bookmark'') =
               (fst (fetchBookmarkData d (trim u) body),
                evs @ snd (fetchPageHtml d (trim u)) @ snd (fetchBookmarkData d (trim u) body)))"
proof (intro conjI allI impI)
  let ?rest = "snd (async_try_catch (match_or_fetch d (trim u) (JStr ''bookmark''))
                 (catch_block (trim u)))"
  have "snd (fetchOembedDataFromUrl d u (JStr ''bookmark'')) = evs @ ?rest"
    by (simp add: resolution_after_providers [OF assms])
  moreover have "\<forall>ev \<in> set ?rest. \<not> matcher_or_discovery ev"
    using bookmark_stage_events by blast
  moreover have "\<forall>x h. FetchBookmarkData x h \<in> set ?rest \<longrightarrow>
      x = trim u \<and> (\<exists>pageUrl. fst (fetchPageHtml d (trim u)) = Inr (pageUrl, h))"
    using bookmark_stage_events by blast
  ultimately show "\<exists>rest. snd (fetchOembedDataFromUrl d u (JStr ''bookmark'')) = evs @ rest
      \<and> (\<forall>ev \<in> set rest. \<not> matcher_or_discovery ev)
      \<and> (\<forall>x h. FetchBookmarkData x h \<in> set rest \<longrightarrow>
            x = trim u \<and> (\<exists>pageUrl. fst (fetchPageHtml d (trim u)) = Inr (pageUrl, h)))"
    by blast
next
  fix pageUrl body
  assume "fst (fetchPageHtml d (trim u)) = Inr (pageUrl, body)"
  then show "fetchOembedDataFromUrl d u (JStr ''bookmark'') =
               (fst (fetchBookmarkData d (trim u) body),
                evs @ snd (fetchPageHtml d (trim u)) @ snd (fetchBookmarkData d (trim u) body))"
    by (simp add: resolution_after_providers [OF assms] bookmark_stage)
qed

theorem bookmark_request_skips_matcher_and_discovery_witness:
  "new_URL example ''https://short.example/x''
     = Some (mkURL ''https:'' ''short.example'' ''short.example'')
   \<and> customProviders_loop example (customProviders example)
         (mkURL ''https:'' ''short.example'' ''short.example'') = (Inr None, [])
   \<and> fst (fetchPageHtml example (trim ''https://short.example/x''))
       = Inr (''https://page.example/post'', ''<html>post</html>'')
   \<and> fetchOembedDataFromUrl example ''https://short.example/x'' (JStr ''bookmark'') =
       (Inr (example_bookmark ''https://short.example/x''),
        [FetchPage ''https://short.example/x'' html_options,
         Request ''https://short.example/x'' (request_config html_options),
         FetchBookmarkData ''https://short.example/x'' ''<html>post</html>''])"
proof -
  note th = bookmark_request_skips_matcher_and_discovery
    [OF example_parsed(5) example_no_providers, THEN conjunct2, rule_format,
     of "''https://page.example/post''" "''<html>post</html>''"]
  have page: "fst (fetchPageHtml example (trim ''https://short.example/x''))
       = Inr (''https://page.example/post'', ''<html>post</html>'')"
    by (simp add: example_trim example_fetchPageHtml)
  from th [OF page] show ?thesis
    by (simp add: example_parsed example_no_providers example_trim example_fetchPageHtml
        example_fetchBookmarkData)
qed

section \<open>C5: incomplete oEmbed responses\<close>

text \<open>
  Claim C5. When the page links to an oEmbed endpoint whose fetched JSON body has type
  \<open>photo\<close>, a non-empty \<open>version\<close> and no \<open>url\<close>, or has type \<open>video\<close> or
  \<open>rich\<close> and lacks \<open>html\<close>, \<open>width\<close> or \<open>height\<close>, the discoverer
  \<open>fetchOembedData\<close> returns no payload (\<open>undefined\<close>) and no error. When the
  resolution reaches discovery with no card type requested and discovery returns no
  payload, the resolution is the bookmark extraction on the requested URL and the
  fetched HTML.
\<close>

theorem incomplete_oembed_falls_back_to_bookmark:
  "(cheerio_href d html = Inr (Some h)
      \<and> fst (fetchPageJson d h) = Inr (jsonUrl, JObj ob)
      \<and> truthy (get_prop ob ''version'')
      \<and> incomplete_oembed ob
    \<longrightarrow> fst (fetchOembedData d x html cardType) = Inr JUndefined)
   \<and> (new_URL d u = Some urlObject
      \<and> customProviders_loop d (customProviders d) urlObject = (Inr None, evs)
      \<and> \<not> truthy type
      \<and> \<not> snd (findUrlWithProvider (hasProvider d) (trim u))
      \<and> fetchPageHtml d (trim u) = (Inr (pageUrl, body), t)
      \<and> (pageUrl = trim u \<or> \<not> snd (findUrlWithProvider (hasProvider d) pageUrl))
      \<and> fst (fetchOembedData d (trim u) body JUndefined) = Inr data
      \<and> \<not> truthy data
    \<longrightarrow> fetchOembedDataFromUrl d u type =
          (fst (fetchBookmarkData d (trim u) body),
           evs @ [FindUrlWithProvider (trim u)] @ t
           @ (if pageUrl \<noteq> trim u then [FindUrlWithProvider pageUrl] else [])
           @ snd (fetchOembedData d (trim u) body JUndefined)
           @ snd (fetchBookmarkData d (trim u) body)))"
proof (intro conjI impI)
  assume "cheerio_href d html = Inr (Some h)
      \<and> fst (fetchPageJson d h) = Inr (jsonUrl, JObj ob)
      \<and> truthy (get_prop ob ''version'')
      \<and> incomplete_oembed ob"
  then show "fst (fetchOembedData d x html cardType) = Inr JUndefined"
    using fetchOembedData_incomplete [of d html h jsonUrl ob x cardType] by simp
next
  assume "new_URL d u = Some urlObject
      \<and> customProviders_loop d (customProviders d) urlObject = (Inr None, evs)
      \<and> \<not> truthy type
      \<and> \<not> snd (findUrlWithProvider (hasProvider d) (trim u))
      \<and> fetchPageHtml d (trim u) = (Inr (pageUrl, body), t)
      \<and> (pageUrl = trim u \<or> \<not> snd (findUrlWithProvider (hasProvider d) pageUrl))
      \<and> fst (fetchOembedData d (trim u) body JUndefined) = Inr data
      \<and> \<not> truthy data"
  then show "fetchOembedDataFromUrl d u type =
          (fst (fetchBookmarkData d (trim u) body),
           evs @ [FindUrlWithProvider (trim u)] @ t
           @ (if pageUrl \<noteq> trim u then [FindUrlWithProvider pageUrl] else [])
           @ snd (fetchOembedData d (trim u) body JUndefined)
           @ snd (fetchBookmarkData d (trim u) body))"
    using resolution_falls_back [of d u urlObject evs type pageUrl body t data] by blast
qed

theorem incomplete_oembed_falls_back_to_bookmark_witness:
  "cheerio_href example ''<html>photo</html>'' = Inr (Some ''https://page.example/oembed.json'')
   \<and> fst (fetchPageJson example ''https://page.example/oembed.json'') =
       Inr (''https://page.example/oembed.json'',
            JObj [(''type'', JStr ''photo''), (''version'', JStr ''1.0'')])
   \<and> incomplete_oembed [(''type'', JStr ''photo''), (''version'', JStr ''1.0'')]
   \<and> fst (fetchOembedData example ''https://page.example/photo'' ''<html>photo</html>'' JUndefined)
       = Inr JUndefined
   \<and> fetchOembedDataFromUrl example ''https://page.example/photo'' JUndefined =
       (Inr (example_bookmark ''https://page.example/photo''),
        [FindUrlWithProvider ''https://page.example/photo'',
         FetchPage ''https://page.example/photo'' html_options,
         Request ''https://page.example/photo'' (request_config html_options),
         FetchOembedData ''https://page.example/photo'' ''<html>photo</html>'' JUndefined,
         FetchPage ''https://page.example/oembed.json'' json_options,
         Request ''https://page.example/oembed.json'' (request_config json_options),
         FetchBookmarkData ''https://page.example/photo'' ''<html>photo</html>''])"
proof -
  let ?u = "''https://page.example/photo''"
  let ?ob = "[(''type'', JStr ''photo''), (''version'', JStr ''1.0'')]"
  have link: "cheerio_href example ''<html>photo</html>''
      = Inr (Some ''https://page.example/oembed.json'')"
    by (simp add: example_fields example_cheerio_href_def)
  have json: "fst (fetchPageJson example ''https://page.example/oembed.json'') =
       Inr (''https://page.example/oembed.json'', JObj ?ob)"
    by (simp add: example_fetchPageJson)
  have version: "truthy (get_prop ?ob ''version'')"
    by (simp add: get_prop_def)
  have incomplete: "incomplete_oembed ?ob"
    by (simp add: incomplete_oembed_def get_prop_def)
  note th = incomplete_oembed_falls_back_to_bookmark
    [where d = example and u = ?u and x = ?u and html = "''<html>photo</html>''"
       and h = "''https://page.example/oembed.json''"
       and jsonUrl = "''https://page.example/oembed.json''" and ob = ?ob
       and cardType = JUndefined
       and urlObject = "mkURL ''https:'' ''page.example'' ''page.example''"
       and evs = "[]" and type = JUndefined and pageUrl = ?u
       and body = "''<html>photo</html>''"
       and t = "[FetchPage ?u html_options, Request ?u (request_config html_options)]"
       and data = JUndefined]
  from th link json version incomplete
  have none: "fst (fetchOembedData example ?u ''<html>photo</html>'' JUndefined) = Inr JUndefined"
    by blast
  from th none
  have "fetchOembedDataFromUrl example ?u JUndefined =
       (Inr (example_bookmark ?u),
        [FindUrlWithProvider ?u, FetchPage ?u html_options,
         Request ?u (request_config html_options),
         FetchOembedData ?u ''<html>photo</html>'' JUndefined,
         FetchPage ''https://page.example/oembed.json'' json_options,
         Request ''https://page.example/oembed.json'' (request_config json_options),
         FetchBookmarkData ?u ''<html>photo</html>''])"
    by (simp add: example_parsed example_no_providers example_trim example_no_match
        example_fetchPageHtml example_fetchOembedData example_fetchBookmarkData)
  with link json incomplete none show ?thesis by simp
qed

section \<open>C6: which errors reach the caller\<close>

text \<open>
  The first part of claim C6 holds. For every bookmark extraction whose scraped object
  has no truthy \<open>title\<close>, \<open>fetchBookmarkData\<close> raises the insufficient-metadata
  \<open>ValidationError\<close> with the URL it was given as context, and an error of the
  extraction reaches the caller unchanged and without a log entry of the orchestrator,
  both when a bookmark was requested and when the extraction is the fallback after
  discovery.
\<close>

lemma insufficient_metadata_propagates:
  "(metascraper d html x = Inr scraperResponse
      \<and> distinct (map fst scraperResponse)
      \<and> \<not> truthy (get_prop scraperResponse ''title'')
    \<longrightarrow> fetchBookmarkData d x html =
          (Inl (ValidationError messages_insufficientMetadata x), [FetchBookmarkData x html]))
   \<and> (new_URL d u = Some urlObject
      \<and> customProviders_loop d (customProviders d) urlObject = (Inr None, evs)
      \<and> fetchPageHtml d (trim u) = (Inr (pageUrl, body), t)
      \<and> fst (fetchBookmarkData d (trim u) body) = Inl e
    \<longrightarrow> fetchOembedDataFromUrl d u (JStr ''bookmark'') =
          (Inl e, evs @ t @ snd (fetchBookmarkData d (trim u) body)))
   \<and> (new_URL d u = Some urlObject
      \<and> customProviders_loop d (customProviders d) urlObject = (Inr None, evs)
      \<and> \<not> truthy type
      \<and> \<not> snd (findUrlWithProvider (hasProvider d) (trim u))
      \<and> fetchPageHtml d (trim u) = (Inr (pageUrl, body), t)
      \<and> (pageUrl = trim u \<or> \<not> snd (findUrlWithProvider (hasProvider d) pageUrl))
      \<and> fst (fetchOembedData d (trim u) body JUndefined) = Inr data
      \<and> \<not> truthy data
      \<and> fst (fetchBookmarkData d (trim u) body) = Inl e
    \<longrightarrow> fetchOembedDataFromUrl d u type =
          (Inl e,
           evs @ [FindUrlWithProvider (trim u)] @ t
           @ (if pageUrl \<noteq> trim u then [FindUrlWithProvider pageUrl] else [])
           @ snd (fetchOembedData d (trim u) body JUndefined)
           @ snd (fetchBookmarkData d (trim u) body)))"
proof (intro conjI impI)
  assume "metascraper d html x = Inr scraperResponse
      \<and> distinct (map fst scraperResponse)
      \<and> \<not> truthy (get_prop scraperResponse ''title'')"
  then show "fetchBookmarkData d x html =
          (Inl (ValidationError messages_insufficientMetadata x), [FetchBookmarkData x html])"
    using insufficient_metadata [of d html x scraperResponse] by simp
next
  assume h: "new_URL d u = Some urlObject
      \<and> customProviders_loop d (customProviders d) urlObject = (Inr None, evs)
      \<and> fetchPageHtml d (trim u) = (Inr (pageUrl, body), t)
      \<and> fst (fetchBookmarkData d (trim u) body) = Inl e"
  then have "fetchOembedDataFromUrl d u (JStr ''bookmark'') =
         (fst (async_try_catch (match_or_fetch d (trim u) (JStr ''bookmark''))
                (catch_block (trim u))),
          evs @ snd (async_try_catch (match_or_fetch d (trim u) (JStr ''bookmark''))
                (catch_block (trim u))))"
    using resolution_after_providers [of d u urlObject evs "JStr ''bookmark''"] by simp
  with h show "fetchOembedDataFromUrl d u (JStr ''bookmark'') =
          (Inl e, evs @ t @ snd (fetchBookmarkData d (trim u) body))"
    by (simp add: bookmark_stage)
next
  assume h: "new_URL d u = Some urlObject
      \<and> customProviders_loop d (customProviders d) urlObject = (Inr None, evs)
      \<and> \<not> truthy type
      \<and> \<not> snd (findUrlWithProvider (hasProvider d) (trim u))
      \<and> fetchPageHtml d (trim u) = (Inr (pageUrl, body), t)
      \<and> (pageUrl = trim u \<or> \<not> snd (findUrlWithProvider (hasProvider d) pageUrl))
      \<and> fst (fetchOembedData d (trim u) body JUndefined) = Inr data
      \<and> \<not> truthy data
      \<and> fst (fetchBookmarkData d (trim u) body) = Inl e"
  then have "fetchOembedDataFromUrl d u type =
         (fst (fetchBookmarkData d (trim u) body),
          evs @ [FindUrlWithProvider (trim u)] @ t
          @ (if pageUrl \<noteq> trim u then [FindUrlWithProvider pageUrl] else [])
          @ snd (fetchOembedData d (trim u) body JUndefined)
          @ snd (fetchBookmarkData d (trim u) body))"
    using resolution_falls_back [of d u urlObject evs type pageUrl body t data] by blast
  with h show "fetchOembedDataFromUrl d u type =
          (Inl e,
           evs @ [FindUrlWithProvider (trim u)] @ t
           @ (if pageUrl \<noteq> trim u then [FindUrlWithProvider pageUrl] else [])
           @ snd (fetchOembedData d (trim u) body JUndefined)
           @ snd (fetchBookmarkData d (trim u) body))"
    by simp
qed

lemma insufficient_metadata_propagates_example:
  "new_URL example ''https://page.example/untitled''
     = Some (mkURL ''https:'' ''page.example'' ''page.example'')
   \<and> customProviders_loop example (customProviders example)
         (mkURL ''https:'' ''page.example'' ''page.example'') = (Inr None, [])
   \<and> metascraper example ''<html>untitled</html>'' ''https://page.example/untitled''
       = Inr [(''url'', JStr ''https://page.example/untitled''), (''title'', JNull)]
   \<and> fetchOembedDataFromUrl example ''https://page.example/untitled'' (JStr ''bookmark'') =
       (Inl (ValidationError messages_insufficientMetadata ''https://page.example/untitled''),
        [FetchPage ''https://page.example/untitled'' html_options,
         Request ''https://page.example/untitled'' (request_config html_options),
         FetchBookmarkData ''https://page.example/untitled'' ''<html>untitled</html>''])
   \<and> fetchOembedDataFromUrl example ''https://page.example/untitled'' JUndefined =
       (Inl (ValidationError messages_insufficientMetadata ''https://page.example/untitled''),
        [FindUrlWithProvider ''https://page.example/untitled'',
         FetchPage ''https://page.example/untitled'' html_options,
         Request ''https://page.example/untitled'' (request_config html_options),
         FetchOembedData ''https://page.example/untitled'' ''<html>untitled</html>'' JUndefined,
         FetchBookmarkData ''https://page.example/untitled'' ''<html>untitled</html>''])"
proof -
  let ?u = "''https://page.example/untitled''"
  let ?U = "mkURL ''https:'' ''page.example'' ''page.example''"
  let ?h = "''<html>untitled</html>''"
  let ?sr = "[(''url'', JStr ?u), (''title'', JNull)]"
  let ?t = "[FetchPage ?u html_options, Request ?u (request_config html_options)]"
  let ?e = "ValidationError messages_insufficientMetadata ?u"
  have scraped: "metascraper example ?h ?u = Inr ?sr"
    by (simp add: example_fields example_metascraper_def)
  have object: "distinct (map fst ?sr)" by simp
  have untitled: "\<not> truthy (get_prop ?sr ''title'')" by (simp add: get_prop_def)
  note th = insufficient_metadata_propagates
    [where d = example and html = ?h and x = ?u and scraperResponse = ?sr and u = ?u
       and urlObject = ?U and evs = "[]" and pageUrl = ?u and body = ?h and t = ?t
       and e = ?e and type = JUndefined and data = JUndefined]
  from th scraped object untitled
  have extraction: "fetchBookmarkData example ?u ?h = (Inl ?e, [FetchBookmarkData ?u ?h])"
    by blast
  have explicit: "fetchOembedDataFromUrl example ?u (JStr ''bookmark'') =
      (Inl ?e, [] @ ?t @ snd (fetchBookmarkData example (trim ?u) ?h))"
    using th extraction
    by (simp add: example_parsed example_no_providers example_trim example_fetchPageHtml)
  have fallback: "fetchOembedDataFromUrl example ?u JUndefined =
      (Inl ?e, [] @ [FindUrlWithProvider (trim ?u)] @ ?t
        @ (if ?u \<noteq> trim ?u then [FindUrlWithProvider ?u] else [])
        @ snd (fetchOembedData example (trim ?u) ?h JUndefined)
        @ snd (fetchBookmarkData example (trim ?u) ?h))"
    using th extraction
    by (simp add: example_parsed example_no_providers example_trim example_fetchPageHtml
        example_no_match example_fetchOembedData)
  from explicit fallback extraction scraped show ?thesis
    by (simp add: example_parsed example_no_providers example_trim example_fetchOembedData)
qed

text \<open>
  Claim C6 says that the insufficient-metadata error of the bookmark extractor reaches
  the caller verbatim and that every other internal exception of a resolution is
  caught, logged and normalized. The code departs from the second part.
  \<open>knownProvider\<close> wraps a failure of \<open>extract\<close> in an \<open>InternalServerError\<close>, and
  the orchestrator returns its promise from the \<open>try\<close> block without \<open>await\<close>, so
  the rejection does not pass the \<open>catch\<close> block, whose comments say that the real
  error is logged and that the unknown-provider error is thrown instead to avoid leaking
  any specifics; the discovery and the fallback extraction of the same block are
  awaited. On the example deployment the directory knows
  \<open>https://www.video.example/watch\<close> and \<open>extract\<close> fails: the caller of the
  resolution of \<open>https://video.example/watch\<close> sees the \<open>InternalServerError\<close> with
  the message of \<open>extract\<close>, and nothing is logged.
\<close>

theorem knownProvider_error_escapes_catch_all:
  "fetchOembedDataFromUrl example ''https://video.example/watch'' JUndefined =
     (Inl (InternalServerError ''Request failed with error code 401'' None),
      [FindUrlWithProvider ''https://video.example/watch'',
       Extract ''https://www.video.example/watch''])"
proof -
  have found: "findUrlWithProvider (hasProvider example) ''https://video.example/watch'' =
      (''https://www.video.example/watch'', True)"
    by (simp add: findUrlWithProvider_def replace_start_def SCHEME_WWW_REGEX_def example_fields)
  have failed: "knownProvider example ''https://www.video.example/watch'' =
      (Inl (InternalServerError ''Request failed with error code 401'' None),
       [Extract ''https://www.video.example/watch''])"
    by (simp add: knownProvider_eq example_fields)
  show ?thesis
    by (simp add: resolution_after_providers [OF example_parsed(6) example_no_providers]
        example_trim match_or_fetch_def found failed)
qed

section \<open>C7: the context of a validation error\<close>

text \<open>
  Claim C7 says that every \<open>ValidationError\<close> given to the caller carries the requested
  URL as context, also when the guard rejects the fetch of a discovered oEmbed
  endpoint. The guarded fetcher reports the URL it was asked to fetch: on the example
  deployment the page \<open>https://page.example/internal\<close> links to the endpoint
  \<open>http://127.0.0.1/admin\<close>, and the error carries the endpoint.
\<close>

theorem endpoint_rejection_carries_endpoint_url:
  "fetchOembedDataFromUrl example ''https://page.example/internal'' JUndefined =
     (Inl (ValidationError messages_unknownProvider ''http://127.0.0.1/admin''),
      [FindUrlWithProvider ''https://page.example/internal'',
       FetchPage ''https://page.example/internal'' html_options,
       Request ''https://page.example/internal'' (request_config html_options),
       FetchOembedData ''https://page.example/internal'' ''<html>internal</html>'' JUndefined,
       FetchPage ''http://127.0.0.1/admin'' json_options])
   \<and> ''http://127.0.0.1/admin'' \<noteq> ''https://page.example/internal''"
proof -
  let ?u = "''https://page.example/internal''"
  have "async_try_catch (discover_or_bookmark example ?u ''<html>internal</html>'' JUndefined)
          (catch_block ?u) =
        (Inl (ValidationError messages_unknownProvider ''http://127.0.0.1/admin''),
         [FetchOembedData ?u ''<html>internal</html>'' JUndefined,
          FetchPage ''http://127.0.0.1/admin'' json_options])"
    by (simp add: discover_or_bookmark_def example_fetchOembedData catch_block_def prod_eq_iff)
  then have "async_try_catch (fetch_and_resolve example ?u JUndefined) (catch_block ?u) =
        (Inl (ValidationError messages_unknownProvider ''http://127.0.0.1/admin''),
         [FetchPage ?u html_options, Request ?u (request_config html_options),
          FetchOembedData ?u ''<html>internal</html>'' JUndefined,
          FetchPage ''http://127.0.0.1/admin'' json_options])"
    by (simp add: fetch_and_resolve_reaches_discovery [OF _ example_fetchPageHtml(3)] prod_eq_iff)
  then show ?thesis
    by (simp add: resolution_reaches_page [OF example_parsed(3) example_no_providers]
        example_trim example_no_match)
qed

text \<open>
  Claim C7, amended. Let the network primitive raise no \<open>ValidationError\<close> of its own.
  A URL that does not parse gives the unknown-provider error with that URL as context.
  For a URL that parses, when the custom providers decline, every \<open>ValidationError\<close>
  given to the caller is the unknown-provider or the insufficient-metadata error; its
  context is the requested URL (after \<open>url.trim()\<close>), except that the unknown-provider
  error of a guard rejection of the discovered oEmbed endpoint carries the endpoint's
  URL. A guard rejection of the page fetch gives exactly the ordinary unknown-provider
  error for the requested URL, and a guard rejection of the endpoint gives the
  unknown-provider error (same type and message) for the endpoint.
\<close>

theorem surfaced_validation_error_context:
  assumes "\<forall>y c m k. request d y c \<noteq> Inl (ValidationError m k)"
  shows "(new_URL d u = None
          \<longrightarrow> fst (fetchOembedDataFromUrl d u type) =
                Inl (ValidationError messages_unknownProvider u))
       \<and> (new_URL d u = Some urlObject
            \<and> fst (customProviders_loop d (customProviders d) urlObject) = Inr None
            \<and> fst (fetchOembedDataFromUrl d u type) = Inl (ValidationError m k)
          \<longrightarrow> (m = messages_unknownProvider
                 \<and> (k = trim u
                     \<or> (\<exists>pageUrl body.
                           fst (fetchPageHtml d (trim u)) = Inr (pageUrl, body)
                           \<and> cheerio_href d body = Inr (Some k)
                           \<and> guard_rejects d k (request_config json_options))))
              \<or> (m = messages_insufficientMetadata \<and> k = trim u))
       \<and> (new_URL d u = Some urlObject
            \<and> fst (customProviders_loop d (customProviders d) urlObject) = Inr None
            \<and> (type = JStr ''bookmark''
                \<or> snd (findUrlWithProvider (hasProvider d) (trim u)) = False)
            \<and> guard_rejects d (trim u) (request_config html_options)
          \<longrightarrow> fst (fetchOembedDataFromUrl d u type) =
                Inl (ValidationError messages_unknownProvider (trim u)))
       \<and> (new_URL d u = Some urlObject
            \<and> fst (customProviders_loop d (customProviders d) urlObject) = Inr None
            \<and> type \<noteq> JStr ''bookmark''
            \<and> snd (findUrlWithProvider (hasProvider d) (trim u)) = False
            \<and> fst (fetchPageHtml d (trim u)) = Inr (pageUrl, body)
            \<and> (pageUrl = trim u \<or> snd (findUrlWithProvider (hasProvider d) pageUrl) = False)
            \<and> cheerio_href d body = Inr (Some h)
            \<and> h \<noteq> []
            \<and> test_anywhere WP_OEMBED_REGEX h = False
            \<and> guard_rejects d h (request_config json_options)
          \<longrightarrow> fst (fetchOembedDataFromUrl d u type) =
                Inl (ValidationError messages_unknownProvider h))"
proof (intro conjI impI)
  assume "new_URL d u = None"
  then show "fst (fetchOembedDataFromUrl d u type) =
      Inl (ValidationError messages_unknownProvider u)"
    by (simp add: fetchOembedDataFromUrl_def catch_block_def)
next
  assume h: "new_URL d u = Some urlObject
            \<and> fst (customProviders_loop d (customProviders d) urlObject) = Inr None
            \<and> fst (fetchOembedDataFromUrl d u type) = Inl (ValidationError m k)"
  then have loop: "customProviders_loop d (customProviders d) urlObject =
      (Inr None, snd (customProviders_loop d (customProviders d) urlObject))"
    by (simp add: prod_eq_iff)
  from h have "fst (async_try_catch (match_or_fetch d (trim u) type) (catch_block (trim u)))
      = Inl (ValidationError m k)"
    using resolution_after_providers [OF _ loop, of u type] by simp
  then show "(m = messages_unknownProvider
                 \<and> (k = trim u
                     \<or> (\<exists>pageUrl body.
                           fst (fetchPageHtml d (trim u)) = Inr (pageUrl, body)
                           \<and> cheerio_href d body = Inr (Some k)
                           \<and> guard_rejects d k (request_config json_options))))
              \<or> (m = messages_insufficientMetadata \<and> k = trim u)"
    by (rule match_or_fetch_ValidationError [OF _ assms])
next
  assume h: "new_URL d u = Some urlObject
            \<and> fst (customProviders_loop d (customProviders d) urlObject) = Inr None
            \<and> (type = JStr ''bookmark''
                \<or> snd (findUrlWithProvider (hasProvider d) (trim u)) = False)
            \<and> guard_rejects d (trim u) (request_config html_options)"
  then have loop: "customProviders_loop d (customProviders d) urlObject =
      (Inr None, snd (customProviders_loop d (customProviders d) urlObject))"
    by (simp add: prod_eq_iff)
  from h have "fst (fetchOembedDataFromUrl d u type) =
      fst (async_try_catch (fetch_and_resolve d (trim u) type) (catch_block (trim u)))"
    using resolution_reaches_page [OF _ loop, of u type] by simp
  with h guard_rejects_page [of d "trim u" type]
  show "fst (fetchOembedDataFromUrl d u type) =
      Inl (ValidationError messages_unknownProvider (trim u))"
    by simp
next
  assume h: "new_URL d u = Some urlObject
            \<and> fst (customProviders_loop d (customProviders d) urlObject) = Inr None
            \<and> type \<noteq> JStr ''bookmark''
            \<and> snd (findUrlWithProvider (hasProvider d) (trim u)) = False
            \<and> fst (fetchPageHtml d (trim u)) = Inr (pageUrl, body)
            \<and> (pageUrl = trim u \<or> snd (findUrlWithProvider (hasProvider d) pageUrl) = False)
            \<and> cheerio_href d body = Inr (Some h)
            \<and> h \<noteq> []
            \<and> test_anywhere WP_OEMBED_REGEX h = False
            \<and> guard_rejects d h (request_config json_options)"
  then have loop: "customProviders_loop d (customProviders d) urlObject =
      (Inr None, snd (customProviders_loop d (customProviders d) urlObject))"
    by (simp add: prod_eq_iff)
  from h have page: "fetchPageHtml d (trim u) =
      (Inr (pageUrl, body), snd (fetchPageHtml d (trim u)))"
    by (simp add: prod_eq_iff)
  from h have "fst (fetchOembedDataFromUrl d u type) =
      fst (async_try_catch (fetch_and_resolve d (trim u) type) (catch_block (trim u)))"
    using resolution_reaches_page [OF _ loop, of u type] by simp
  also from h have "\<dots> =
      fst (async_try_catch (discover_or_bookmark d (trim u) body type) (catch_block (trim u)))"
    using fetch_and_resolve_reaches_discovery [OF _ page, of type] by simp
  also from h have "\<dots> = Inl (ValidationError messages_unknownProvider h)"
    using guard_rejects_endpoint [of d body h "trim u" type] by simp
  finally show "fst (fetchOembedDataFromUrl d u type) =
      Inl (ValidationError messages_unknownProvider h)" .
qed

theorem surfaced_validation_error_context_witness:
  "(\<forall>y c m k. request example y c \<noteq> Inl (ValidationError m k))
   \<and> new_URL example ''https://page.example/internal''
       = Some (mkURL ''https:'' ''page.example'' ''page.example'')
   \<and> fst (customProviders_loop example (customProviders example)
              (mkURL ''https:'' ''page.example'' ''page.example'')) = Inr None
   \<and> snd (findUrlWithProvider (hasProvider example) (trim ''https://page.example/internal''))
       = False
   \<and> fst (fetchPageHtml example (trim ''https://page.example/internal''))
       = Inr (''https://page.example/internal'', ''<html>internal</html>'')
   \<and> cheerio_href example ''<html>internal</html>'' = Inr (Some ''http://127.0.0.1/admin'')
   \<and> test_anywhere WP_OEMBED_REGEX ''http://127.0.0.1/admin'' = False
   \<and> guard_rejects example ''http://127.0.0.1/admin'' (request_config json_options)
   \<and> fst (fetchOembedDataFromUrl example ''https://page.example/internal'' JUndefined)
       = Inl (ValidationError messages_unknownProvider ''http://127.0.0.1/admin'')"
proof -
  let ?u = "''https://page.example/internal''"
  let ?U = "mkURL ''https:'' ''page.example'' ''page.example''"
  have errors: "\<forall>y c m k. request example y c \<noteq> Inl (ValidationError m k)"
    by (simp add: example_request_errors)
  have loop: "fst (customProviders_loop example (customProviders example) ?U) = Inr None"
    by (simp add: example_no_providers)
  have no_match: "snd (findUrlWithProvider (hasProvider example) (trim ?u)) = False"
    by (simp add: example_trim example_no_match)
  have page: "fst (fetchPageHtml example (trim ?u)) = Inr (?u, ''<html>internal</html>'')"
    by (simp add: example_trim example_fetchPageHtml)
  have link: "cheerio_href example ''<html>internal</html>'' = Inr (Some ''http://127.0.0.1/admin'')"
    by (simp add: example_fields example_cheerio_href_def)
  have not_wp: "test_anywhere WP_OEMBED_REGEX ''http://127.0.0.1/admin'' = False"
    using example_wp(2) by simp
  have rejected: "guard_rejects example ''http://127.0.0.1/admin'' (request_config json_options)"
    by (rule example_guard_rejects)
  have same_page: "?u = trim ?u"
    by (simp add: example_trim)
  have not_empty: "''http://127.0.0.1/admin'' \<noteq> []" by simp
  have no_type: "JUndefined \<noteq> JStr ''bookmark''" by simp
  note th = surfaced_validation_error_context [OF errors, of ?u JUndefined ?U _ _ ?u
      "''<html>internal</html>''" "''http://127.0.0.1/admin''",
      THEN conjunct2, THEN conjunct2, THEN conjunct2, rule_format]
  have "fst (fetchOembedDataFromUrl example ?u JUndefined)
       = Inl (ValidationError messages_unknownProvider ''http://127.0.0.1/admin'')"
    by (rule th) (intro conjI example_parsed(3) loop no_type no_match page disjI1 same_page
        link not_empty not_wp rejected)
  with errors loop no_match page link not_wp rejected example_parsed(3) show ?thesis
    by (intro conjI)
qed

section \<open>C8: the bookmark payload\<close>

text \<open>
  Claim C8. Every payload that \<open>fetchBookmarkData\<close> returns is
  \<open>{version: '1.0', type: 'bookmark', url, metadata}\<close> for the URL it was given, where
  \<open>metadata.thumbnail\<close> is the scraper's \<open>image\<close>, \<open>metadata.icon\<close> is the
  scraper's \<open>logo\<close>, and \<open>metadata\<close> has no key \<open>image\<close> and no key \<open>logo\<close>.
  The title is truthy, and every other field of a scraper object is passed on unchanged.
\<close>

theorem bookmark_payload_shape:
  assumes "fst (fetchBookmarkData d u html) = Inr payload"
  shows "\<exists>scraperResponse metadata.
           metascraper d html u = Inr scraperResponse
           \<and> payload = JObj [(''version'', JStr ''1.0''),
                             (''type'', JStr ''bookmark''),
                             (''url'', JStr u),
                             (''metadata'', JObj metadata)]
           \<and> get_prop metadata ''thumbnail'' = get_prop scraperResponse ''image''
           \<and> get_prop metadata ''icon'' = get_prop scraperResponse ''logo''
           \<and> ''image'' \<notin> fst ` set metadata
           \<and> ''logo'' \<notin> fst ` set metadata
           \<and> truthy (get_prop metadata ''title'')
           \<and> (distinct (map fst scraperResponse) \<longrightarrow>
                (\<forall>k. k \<notin> {''thumbnail'', ''icon'', ''image'', ''logo''} \<longrightarrow>
                     get_prop metadata k = get_prop scraperResponse k))"
proof (cases "metascraper d html u")
  case (Inl err)
  with assms show ?thesis by (simp add: fetchBookmarkData_def)
next
  case (Inr sr)
  with assms have "truthy (get_prop (bookmark_metadata sr) ''title'')"
    and "payload = JObj [(''version'', JStr ''1.0''), (''type'', JStr ''bookmark''),
                         (''url'', JStr u), (''metadata'', JObj (bookmark_metadata sr))]"
    by (auto simp: fetchBookmarkData_def Let_def split: if_splits)
  moreover have "distinct (map fst sr) \<longrightarrow>
      (\<forall>k. k \<notin> {''thumbnail'', ''icon'', ''image'', ''logo''} \<longrightarrow>
           get_prop (bookmark_metadata sr) k = get_prop sr k)"
    by (intro impI allI) (rule get_prop_bookmark_metadata_other)
  moreover note Inr get_prop_bookmark_metadata_thumbnail [of sr]
    get_prop_bookmark_metadata_icon [of sr]
    bookmark_metadata_no_image [of sr] bookmark_metadata_no_logo [of sr]
  ultimately show ?thesis
    by (intro exI [of _ sr] exI [of _ "bookmark_metadata sr"] conjI) assumption+
qed

theorem bookmark_payload_shape_witness:
  "fst (fetchBookmarkData example ''https://page.example/post'' ''<html>post</html>'')
     = Inr (example_bookmark ''https://page.example/post'')
   \<and> (\<exists>scraperResponse metadata.
         metascraper example ''<html>post</html>'' ''https://page.example/post''
           = Inr scraperResponse
         \<and> example_bookmark ''https://page.example/post'' =
             JObj [(''version'', JStr ''1.0''),
                   (''type'', JStr ''bookmark''),
                   (''url'', JStr ''https://page.example/post''),
                   (''metadata'', JObj metadata)]
         \<and> get_prop metadata ''thumbnail'' = get_prop scraperResponse ''image''
         \<and> get_prop metadata ''icon'' = get_prop scraperResponse ''logo''
         \<and> ''image'' \<notin> fst ` set metadata
         \<and> ''logo'' \<notin> fst ` set metadata
         \<and> truthy (get_prop metadata ''title'')
         \<and> (distinct (map fst scraperResponse) \<longrightarrow>
              (\<forall>k. k \<notin> {''thumbnail'', ''icon'', ''image'', ''logo''} \<longrightarrow>
                   get_prop metadata k = get_prop scraperResponse k)))"
proof -
  have ok: "fst (fetchBookmarkData example ''https://page.example/post'' ''<html>post</html>'')
     = Inr (example_bookmark ''https://page.example/post'')"
    by (simp add: example_fetchBookmarkData)
  show ?thesis
    using ok bookmark_payload_shape [OF ok] by (rule conjI)
qed

section \<open>C9: the known-provider matcher\<close>

text \<open>
  Claim C9 says that \<open>findUrlWithProvider\<close> first strips any existing scheme and
  \<open>www\<close> prefix and then tests the four variants of the remaining host. The pattern
  only removes \<open>//\<close>, \<open>http://\<close> and \<open>https://\<close> (lower case): for
  \<open>ftp://files.example/a\<close> and a directory that knows \<open>http://files.example/a\<close>
  the code finds nothing, where the matcher of the claim answers with that variant.
\<close>

theorem other_scheme_is_not_stripped:
  "findUrlWithProvider (\<lambda>v. v = ''http://files.example/a'') ''ftp://files.example/a''
     = (''ftp://files.example/a'', False)
   \<and> claimed_findUrlWithProvider (\<lambda>v. v = ''http://files.example/a'') ''ftp://files.example/a''
     = (''http://files.example/a'', True)"
  by (simp add: findUrlWithProvider_def replace_start_def SCHEME_WWW_REGEX_def
      claimed_findUrlWithProvider_def strip_any_scheme_def scheme_char_def in_range_def
      strip_www_def variants_def first_known_def)

text \<open>
  Claim C9, amended. For every input, \<open>findUrlWithProvider\<close> takes as base the input
  without a leading \<open>//\<close>, or without a leading \<open>http://\<close> or \<open>https://\<close> and a
  \<open>www.\<close> directly after it (any other input is its own base), and tests exactly
  \<open>http://base\<close>, \<open>https://base\<close>, \<open>http://www.base\<close> and \<open>https://www.base\<close> in
  that order against the directory. It returns the first variant that the directory
  knows with the flag \<open>true\<close>, and the original URL with the flag \<open>false\<close> when it
  knows none.
\<close>

theorem findUrlWithProvider_variants:
  "findUrlWithProvider directory u =
     (case find directory [''http://'' @ baseUrl_of u,
                           ''https://'' @ baseUrl_of u,
                           ''http://www.'' @ baseUrl_of u,
                           ''https://www.'' @ baseUrl_of u] of
        Some testUrl \<Rightarrow> (testUrl, True)
      | None \<Rightarrow> (u, False))"
  by (simp add: findUrlWithProvider_def replace_start_scheme testUrls_loop_find first_known_def
      Let_def del: find.simps)

theorem findUrlWithProvider_variants_witness:
  "findUrlWithProvider (hasProvider example) ''http://video.example/watch''
     = (''https://www.video.example/watch'', True)
   \<and> findUrlWithProvider (hasProvider example) ''//www.video.example/watch''
     = (''https://www.video.example/watch'', True)
   \<and> findUrlWithProvider (hasProvider example) ''https://page.example/post''
     = (''https://page.example/post'', False)"
  using findUrlWithProvider_variants [of "hasProvider example" "''http://video.example/watch''"]
    findUrlWithProvider_variants [of "hasProvider example" "''//www.video.example/watch''"]
    findUrlWithProvider_variants [of "hasProvider example" "''https://page.example/post''"]
  by (simp add: baseUrl_of_def strip_www_def example_fields)

section \<open>C10: a site URL that does not parse\<close>

text \<open>
  Claim C10 says that with a site URL that does not parse \<open>isIpOrLocalhost\<close> is true of
  every input, so that every fetch is rejected and every resolution that reaches a
  network hop ends with the unknown-provider error: the misconfiguration fails closed
  for all requests. The guard is indeed true of every input, but a resolution that
  does not go through the guarded fetcher is not stopped by it: the URL of a known
  provider is handed to \<open>extract\<close>, which reaches the provider's endpoint, and the
  resolution returns what \<open>extract\<close> returns.
\<close>

theorem misconfigured_known_provider_resolves:
  "new_URL misconfigured_video (config_get_url misconfigured_video) = None
   \<and> isIpOrLocalhost misconfigured_video ''https://www.video.example/watch''
   \<and> fetchOembedDataFromUrl misconfigured_video ''https://video.example/watch'' JUndefined =
       (Inr video_embed,
        [FindUrlWithProvider ''https://video.example/watch'',
         Extract ''https://www.video.example/watch''])"
proof -
  have site: "new_URL misconfigured_video (config_get_url misconfigured_video) = None"
    by (simp add: misconfigured_video_fields example_new_URL_def)
  have parsed: "new_URL misconfigured_video ''https://video.example/watch''
      = Some (mkURL ''https:'' ''video.example'' ''video.example'')"
    by (simp add: misconfigured_video_fields example_new_URL_def)
  have loop: "customProviders_loop misconfigured_video (customProviders misconfigured_video)
      (mkURL ''https:'' ''video.example'' ''video.example'') = (Inr None, [])"
    by (simp add: misconfigured_video_fields resolve_def)
  have answered: "knownProvider misconfigured_video ''https://www.video.example/watch'' =
      (Inr video_embed, [Extract ''https://www.video.example/watch''])"
    by (simp add: knownProvider_eq misconfigured_video_fields)
  have resolution: "fetchOembedDataFromUrl misconfigured_video ''https://video.example/watch'' JUndefined =
       (Inr video_embed,
        [FindUrlWithProvider ''https://video.example/watch'',
         Extract ''https://www.video.example/watch''])"
    by (simp add: resolution_after_providers [OF parsed loop] example_trim match_or_fetch_def
        misconfigured_video_fields known_video answered)
  from site misconfigured_guard [OF site] resolution show ?thesis by (intro conjI)
qed

text \<open>
  Claim C10, amended. When the configured site URL does not parse, \<open>isIpOrLocalhost\<close> is
  true of every input, the guarded fetcher rejects every call with the unknown-provider
  error without issuing a request, and so do the page fetches. Every resolution that
  reaches the page fetch (the URL parses, the providers decline, and a bookmark is
  requested or the directory does not know the URL) ends with the unknown-provider
  error for the requested URL after \<open>url.trim()\<close>, without any request; and a
  resolution in which a call to a custom provider is rejected with a
  \<open>ValidationError\<close>, as it is when the provider passes on the rejection of the
  fetcher, ends with that error.
\<close>

theorem unparseable_site_url_fails_closed:
  assumes "new_URL d (config_get_url d) = None"
  shows "isIpOrLocalhost d x
       \<and> externalRequest d x c = (Inl (ValidationError messages_unknownProvider x), [])
       \<and> fetchPageHtml d x =
           (Inl (ValidationError messages_unknownProvider x), [FetchPage x html_options])
       \<and> fetchPageJson d x =
           (Inl (ValidationError messages_unknownProvider x), [FetchPage x json_options])
       \<and> (new_URL d u = Some urlObject
            \<and> customProviders_loop d (customProviders d) urlObject = (Inr None, evs)
            \<and> (type = JStr ''bookmark''
                \<or> snd (findUrlWithProvider (hasProvider d) (trim u)) = False)
          \<longrightarrow> fetchOembedDataFromUrl d u type =
                (Inl (ValidationError messages_unknownProvider (trim u)),
                 evs @ (if type \<noteq> JStr ''bookmark'' then [FindUrlWithProvider (trim u)] else [])
                 @ [FetchPage (trim u) html_options]))
       \<and> (new_URL d u = Some urlObject
            \<and> customProviders_loop d (customProviders d) urlObject =
                (Inl (ValidationError m k), evs)
          \<longrightarrow> fetchOembedDataFromUrl d u type = (Inl (ValidationError m k), evs))"
proof (intro conjI impI)
  show guard: "isIpOrLocalhost d x"
    by (rule misconfigured_guard [OF assms])
  then show "externalRequest d x c = (Inl (ValidationError messages_unknownProvider x), [])"
    by (simp add: externalRequest_def prod_eq_iff)
  show "fetchPageHtml d x =
      (Inl (ValidationError messages_unknownProvider x), [FetchPage x html_options])"
    by (simp add: fetchPageHtml_def misconfigured_fetchPage [OF assms] prod_eq_iff)
  show "fetchPageJson d x =
      (Inl (ValidationError messages_unknownProvider x), [FetchPage x json_options])"
    by (simp add: fetchPageJson_def misconfigured_fetchPage [OF assms] prod_eq_iff)
next
  assume h: "new_URL d u = Some urlObject
            \<and> customProviders_loop d (customProviders d) urlObject = (Inr None, evs)
            \<and> (type = JStr ''bookmark''
                \<or> snd (findUrlWithProvider (hasProvider d) (trim u)) = False)"
  then have "fetchOembedDataFromUrl d u type =
         (fst (async_try_catch (fetch_and_resolve d (trim u) type) (catch_block (trim u))),
          evs @ (if type \<noteq> JStr ''bookmark'' then [FindUrlWithProvider (trim u)] else [])
          @ snd (async_try_catch (fetch_and_resolve d (trim u) type) (catch_block (trim u))))"
    using resolution_reaches_page [of d u urlObject evs type] by simp
  then show "fetchOembedDataFromUrl d u type =
                (Inl (ValidationError messages_unknownProvider (trim u)),
                 evs @ (if type \<noteq> JStr ''bookmark'' then [FindUrlWithProvider (trim u)] else [])
                 @ [FetchPage (trim u) html_options])"
    by (simp add: misconfigured_fetch_and_resolve [OF assms])
next
  assume "new_URL d u = Some urlObject
            \<and> customProviders_loop d (customProviders d) urlObject =
                (Inl (ValidationError m k), evs)"
  then show "fetchOembedDataFromUrl d u type = (Inl (ValidationError m k), evs)"
    by (auto simp: resolution_provider_failed catch_block_def)
qed

theorem unparseable_site_url_fails_closed_witness:
  "new_URL misconfigured (config_get_url misconfigured) = None
   \<and> isIpOrLocalhost misconfigured ''https://page.example/post''
   \<and> new_URL misconfigured ''https://page.example/post''
       = Some (mkURL ''https:'' ''page.example'' ''page.example'')
   \<and> customProviders_loop misconfigured (customProviders misconfigured)
         (mkURL ''https:'' ''page.example'' ''page.example'') = (Inr None, [])
   \<and> snd (findUrlWithProvider (hasProvider misconfigured) (trim ''https://page.example/post''))
       = False
   \<and> fetchOembedDataFromUrl misconfigured ''https://page.example/post'' JUndefined =
       (Inl (ValidationError messages_unknownProvider ''https://page.example/post''),
        [FindUrlWithProvider ''https://page.example/post'',
         FetchPage ''https://page.example/post'' html_options])
   \<and> new_URL misconfigured_with_providers (config_get_url misconfigured_with_providers) = None
   \<and> customProviders_loop misconfigured_with_providers
         (customProviders misconfigured_with_providers)
         (mkURL ''https:'' ''page.example'' ''page.example'') =
       (Inl (ValidationError messages_unknownProvider ''https://page.example/oembed.json''), [])
   \<and> fetchOembedDataFromUrl misconfigured_with_providers ''https://page.example/post''
         JUndefined =
       (Inl (ValidationError messages_unknownProvider ''https://page.example/oembed.json''), [])"
proof -
  let ?u = "''https://page.example/post''"
  let ?U = "mkURL ''https:'' ''page.example'' ''page.example''"
  have site: "new_URL misconfigured (config_get_url misconfigured) = None"
    by (simp add: misconfigured_fields example_new_URL_def)
  have parsed: "new_URL misconfigured ?u = Some ?U"
    by (simp add: misconfigured_fields example_new_URL_def)
  have loop: "customProviders_loop misconfigured (customProviders misconfigured) ?U = (Inr None, [])"
    by (simp add: misconfigured_fields resolve_def)
  have no_match: "snd (findUrlWithProvider (hasProvider misconfigured) (trim ?u)) = False"
    by (simp add: example_trim findUrlWithProvider_def replace_start_def SCHEME_WWW_REGEX_def
        misconfigured_fields)
  note th = unparseable_site_url_fails_closed
    [OF site, where x = ?u and c = "[]" and u = ?u and urlObject = ?U and evs = "[]"
       and type = JUndefined]
  from th have guard: "isIpOrLocalhost misconfigured ?u" by blast
  from th parsed loop no_match
  have page: "fetchOembedDataFromUrl misconfigured ?u JUndefined =
       (Inl (ValidationError messages_unknownProvider ?u),
        [FindUrlWithProvider ?u, FetchPage ?u html_options])"
    by (simp add: example_trim)
  let ?e = "''https://page.example/oembed.json''"
  have site': "new_URL misconfigured_with_providers
      (config_get_url misconfigured_with_providers) = None"
    by (simp add: misconfigured_with_providers_fields example_new_URL_def)
  have parsed': "new_URL misconfigured_with_providers ?u = Some ?U"
    by (simp add: misconfigured_with_providers_fields example_new_URL_def)
  note th' = unparseable_site_url_fails_closed
    [OF site', where u = ?u and urlObject = ?U and evs = "[]" and type = JUndefined
       and m = messages_unknownProvider and k = ?e]
  from th' parsed' misconfigured_asking
  have passed_on: "fetchOembedDataFromUrl misconfigured_with_providers ?u JUndefined =
       (Inl (ValidationError messages_unknownProvider ?e), [])"
    by blast
  from site guard parsed loop no_match page site' misconfigured_asking passed_on
  show ?thesis by (intro conjI)
qed

end
